theory Spec2Isabelle
  imports Main "HOL-Library.AList"
begin

section \<open>Text, bytes and paths\<close>

text \<open>
  A Python \<open>str\<close> is a sequence of Unicode code points and a \<open>bytes\<close> value a sequence
  of numbers below 256; both are lists of naturals here. ASCII literals of the source
  are written through \<open>asc\<close>. The fixed Russian prompt and message texts of the source
  are kept symbolic (\<open>fixed_text\<close>, \<open>msg\<close> below).
\<close>

type_synonym pystr = "nat list"
type_synonym bytes = "nat list"

definition asc :: "string \<Rightarrow> pystr" where
  "asc s = map of_char s"

text \<open>
  \<open>str.lower()\<close>: the ASCII letters are mapped here; what Unicode does to a code point
  from 128 on is the parameter \<open>U\<close> (it may give several code points).
\<close>

definition ascii_lower :: "nat \<Rightarrow> nat" where
  "ascii_lower c = (if 65 \<le> c \<and> c \<le> 90 then c + 32 else c)"

definition py_lower :: "(nat \<Rightarrow> pystr) \<Rightarrow> pystr \<Rightarrow> pystr" where
  "py_lower U s = concat (map (\<lambda>c. if c < 128 then [ascii_lower c] else U c) s)"

text \<open>\<open>str.strip()\<close> removes the code points for which \<open>str.isspace\<close> holds, at both ends.\<close>

definition py_isspace :: "nat \<Rightarrow> bool" where
  "py_isspace c \<longleftrightarrow>
     (9 \<le> c \<and> c \<le> 13) \<or> (28 \<le> c \<and> c \<le> 32) \<or> c = 133 \<or> c = 160 \<or> c = 5760 \<or>
     (8192 \<le> c \<and> c \<le> 8202) \<or> c = 8232 \<or> c = 8233 \<or> c = 8239 \<or> c = 8287 \<or> c = 12288"

definition py_strip :: "pystr \<Rightarrow> pystr" where
  "py_strip s = rev (dropWhile py_isspace (rev (dropWhile py_isspace s)))"

subsection \<open>pathlib\<close>

text \<open>
  \<open>Path(s)\<close> on POSIX: the text is cut at \<open>/\<close>, empty components and \<open>.\<close> components are
  dropped, a leading \<open>/\<close> is the root (exactly two leading slashes are kept as \<open>//\<close>).
\<close>

datatype ppath = PPath (root: pystr) (parts: "pystr list")

fun split_slash :: "pystr \<Rightarrow> pystr list" where
  "split_slash [] = [[]]"
| "split_slash (c # cs) =
     (if c = 47 then [] # split_slash cs
      else (case split_slash cs of [] \<Rightarrow> [[c]] | p # ps \<Rightarrow> (c # p) # ps))"

definition root_of :: "pystr \<Rightarrow> pystr" where
  "root_of s =
     (if take 2 s = [47, 47] \<and> take 3 s \<noteq> [47, 47, 47] then [47, 47]
      else if take 1 s = [47] then [47] else [])"

definition Path :: "pystr \<Rightarrow> ppath" where
  "Path s = PPath (root_of s) (filter (\<lambda>p. p \<noteq> [] \<and> p \<noteq> [46]) (split_slash s))"

fun join_slash :: "pystr list \<Rightarrow> pystr" where
  "join_slash [] = []"
| "join_slash [p] = p"
| "join_slash (p # q # ps) = p @ [47] @ join_slash (q # ps)"

definition path_str :: "ppath \<Rightarrow> pystr" where
  "path_str p =
     (if root p = [] \<and> parts p = [] then [46] else root p @ join_slash (parts p))"

definition path_join :: "ppath \<Rightarrow> pystr \<Rightarrow> ppath" where
  "path_join p s =
     (if take 1 s = [47] then Path s else PPath (root p) (parts p @ parts (Path s)))"

definition path_parent :: "ppath \<Rightarrow> ppath" where
  "path_parent p = PPath (root p) (butlast (parts p))"

definition path_name :: "ppath \<Rightarrow> pystr" where
  "path_name p = (if parts p = [] then [] else last (parts p))"

text \<open>\<open>name.rfind('.')\<close>: the index of the last dot, if there is one.\<close>

fun rfind_dot :: "pystr \<Rightarrow> nat option" where
  "rfind_dot [] = None"
| "rfind_dot (c # cs) =
     (case rfind_dot cs of
        Some i \<Rightarrow> Some (Suc i)
      | None \<Rightarrow> if c = 46 then Some 0 else None)"

text \<open>\<open>PurePath.suffix\<close>: \<open>name[i:]\<close> if \<open>0 < i < len(name) - 1\<close>, else the empty string.\<close>

definition path_suffix :: "ppath \<Rightarrow> pystr" where
  "path_suffix p =
     (let name = path_name p in
      case rfind_dot name of
        None \<Rightarrow> []
      | Some i \<Rightarrow> if 0 < i \<and> i + 1 < length name then drop i name else [])"

subsection \<open>The MIME table of \<open>analyze_stamp\<close>\<close>

text \<open>
  Lines 123 to 131 of \<open>analyze_stamp.py\<close>:
  \<open>image_ext = Path(image_path).suffix.lower()\<close>, the dictionary \<open>mime_types\<close> and
  \<open>mime_types.get(image_ext, 'image/jpeg')\<close>.
\<close>

definition mime_types :: "(pystr \<times> pystr) list" where
  "mime_types =
     [(asc ''.jpg'', asc ''image/jpeg''),
      (asc ''.jpeg'', asc ''image/jpeg''),
      (asc ''.png'', asc ''image/png''),
      (asc ''.gif'', asc ''image/gif''),
      (asc ''.webp'', asc ''image/webp'')]"

definition image_ext :: "(nat \<Rightarrow> pystr) \<Rightarrow> pystr \<Rightarrow> pystr" where
  "image_ext U image_path = py_lower U (path_suffix (Path image_path))"

definition mime_type :: "(nat \<Rightarrow> pystr) \<Rightarrow> pystr \<Rightarrow> pystr" where
  "mime_type U image_path =
     (case map_of mime_types (image_ext U image_path) of
        Some m \<Rightarrow> m
      | None \<Rightarrow> asc ''image/jpeg'')"

section \<open>The library functions the program calls\<close>

text \<open>
  The program is glue around CPython's \<open>base64\<close>, \<open>json\<close> and UTF-8 text files. They are
  not part of the repository; they are written out here after their documented
  behaviour, for the arguments the program passes (\<open>ensure_ascii=False\<close>, an integer
  \<open>indent\<close>, strict decoding), so that the claims about what reaches the disk and what
  is read back can be stated.
\<close>

subsection \<open>\<open>base64.b64encode\<close>\<close>

definition b64char :: "nat \<Rightarrow> nat" where
  "b64char i =
     (if i < 26 then 65 + i else if i < 52 then 97 + (i - 26)
      else if i < 62 then 48 + (i - 52) else if i = 62 then 43 else 47)"

fun b64encode :: "bytes \<Rightarrow> pystr" where
  "b64encode [] = []"
| "b64encode [a] = [b64char (a div 4), b64char (a mod 4 * 16), 61, 61]"
| "b64encode [a, b] =
     [b64char (a div 4), b64char (a mod 4 * 16 + b div 16), b64char (b mod 16 * 4), 61]"
| "b64encode (a # b # c # r) =
     [b64char (a div 4), b64char (a mod 4 * 16 + b div 16),
      b64char (b mod 16 * 4 + c div 64), b64char (c mod 64)] @ b64encode r"

subsection \<open>UTF-8 text files\<close>

text \<open>
  The strict \<open>utf-8\<close> codec: a surrogate code point cannot be encoded
  (\<open>UnicodeEncodeError\<close>); overlong forms, surrogates and values from \<open>0x110000\<close> on
  cannot be decoded (\<open>UnicodeDecodeError\<close>). \<open>None\<close> is the error.
\<close>

definition utf8_char :: "nat \<Rightarrow> bytes option" where
  "utf8_char c =
     (if c < 128 then Some [c]
      else if c < 2048 then Some [192 + c div 64, 128 + c mod 64]
      else if c < 65536 then
        (if 55296 \<le> c \<and> c \<le> 57343 then None
         else Some [224 + c div 4096, 128 + c div 64 mod 64, 128 + c mod 64])
      else if c < 1114112 then
        Some [240 + c div 262144, 128 + c div 4096 mod 64, 128 + c div 64 mod 64,
              128 + c mod 64]
      else None)"

fun utf8_encode :: "pystr \<Rightarrow> bytes option" where
  "utf8_encode [] = Some []"
| "utf8_encode (c # cs) =
     (case utf8_char c of
        None \<Rightarrow> None
      | Some bs \<Rightarrow> map_option ((@) bs) (utf8_encode cs))"

definition is_cont :: "nat \<Rightarrow> bool" where
  "is_cont b \<longleftrightarrow> 128 \<le> b \<and> b < 192"

fun utf8_decode :: "bytes \<Rightarrow> pystr option" where
  "utf8_decode [] = Some []"
| "utf8_decode (b0 # r) =
     (if b0 < 128 then map_option ((#) b0) (utf8_decode r)
      else if 194 \<le> b0 \<and> b0 < 224 then
        (case r of
           b1 # r1 \<Rightarrow>
             if is_cont b1
             then map_option ((#) ((b0 - 192) * 64 + (b1 - 128))) (utf8_decode r1)
             else None
         | _ \<Rightarrow> None)
      else if 224 \<le> b0 \<and> b0 < 240 then
        (case r of
           b1 # b2 # r2 \<Rightarrow>
             (let c = (b0 - 224) * 4096 + (b1 - 128) * 64 + (b2 - 128) in
              if is_cont b1 \<and> is_cont b2 \<and> 2048 \<le> c \<and> \<not> (55296 \<le> c \<and> c \<le> 57343)
              then map_option ((#) c) (utf8_decode r2)
              else None)
         | _ \<Rightarrow> None)
      else if 240 \<le> b0 \<and> b0 < 245 then
        (case r of
           b1 # b2 # b3 # r3 \<Rightarrow>
             (let c = (b0 - 240) * 262144 + (b1 - 128) * 4096 + (b2 - 128) * 64 + (b3 - 128) in
              if is_cont b1 \<and> is_cont b2 \<and> is_cont b3 \<and> 65536 \<le> c \<and> c < 1114112
              then map_option ((#) c) (utf8_decode r3)
              else None)
         | _ \<Rightarrow> None)
      else None)"

text \<open>
  Reading in text mode translates \<open>\r\n\<close> and a lone \<open>\r\<close> to \<open>\n\<close> (universal newlines);
  writing on POSIX leaves \<open>\n\<close> as it is.
\<close>

fun universal_newlines :: "pystr \<Rightarrow> pystr" where
  "universal_newlines [] = []"
| "universal_newlines [c] = [if c = 13 then 10 else c]"
| "universal_newlines (c # d # r) =
     (if c = 13 \<and> d = 10 then 10 # universal_newlines r
      else if c = 13 then 10 # universal_newlines (d # r)
      else c # universal_newlines (d # r))"

subsection \<open>JSON values\<close>

text \<open>
  What \<open>json.loads\<close> returns: \<open>None\<close>, \<open>bool\<close>, \<open>int\<close> (unbounded), \<open>float\<close>, \<open>str\<close>,
  \<open>list\<close> and \<open>dict\<close> with \<open>str\<close> keys. A \<open>dict\<close> is the list of its items in insertion
  order, its keys distinct. The type \<open>'f\<close> stands for Python's \<open>float\<close>: \<open>float(text)\<close>
  and the text \<open>json\<close> writes for a float (\<open>float.__repr__\<close>, or \<open>NaN\<close>, \<open>Infinity\<close>,
  \<open>-Infinity\<close>) are parameters of the decoder and the encoder.
\<close>

datatype 'f json =
    JNull
  | JBool bool
  | JInt int
  | JFloat 'f
  | JStr pystr
  | JList "'f json list"
  | JDict "(pystr \<times> 'f json) list"

text \<open>\<open>dict(pairs)\<close>: a repeated key keeps its first position and takes the last value.\<close>

definition dict_of :: "(pystr \<times> 'v) list \<Rightarrow> (pystr \<times> 'v) list" where
  "dict_of pairs = foldl (\<lambda>d (k, v). AList.update k v d) [] pairs"

subsection \<open>\<open>json.dumps(obj, ensure_ascii=False, indent=n)\<close>\<close>

definition hex_lower :: "nat \<Rightarrow> nat" where
  "hex_lower d = (if d < 10 then 48 + d else 87 + d)"

text \<open>
  \<open>ESCAPE_DCT\<close> of \<open>json.encoder\<close>: the quote, the backslash and the code points below 32
  are escaped; every other code point, ASCII or not, is written as it is.
\<close>

definition escape_char :: "nat \<Rightarrow> pystr" where
  "escape_char c =
     (if c = 34 then [92, 34]
      else if c = 92 then [92, 92]
      else if c = 10 then [92, 110]
      else if c = 13 then [92, 114]
      else if c = 9 then [92, 116]
      else if c = 8 then [92, 98]
      else if c = 12 then [92, 102]
      else if c < 32 then [92, 117, 48, 48, hex_lower (c div 16), hex_lower (c mod 16)]
      else [c])"

definition encode_basestring :: "pystr \<Rightarrow> pystr" where
  "encode_basestring s = [34] @ concat (map escape_char s) @ [34]"

function nat_repr :: "nat \<Rightarrow> pystr" where
  "nat_repr n = (if n < 10 then [48 + n] else nat_repr (n div 10) @ [48 + n mod 10])"
  by pat_completeness auto
termination
  by (relation "measure id") auto

declare nat_repr.simps [simp del]

definition int_repr :: "int \<Rightarrow> pystr" where
  "int_repr i = (if i < 0 then 45 # nat_repr (nat (- i)) else nat_repr (nat i))"

definition newline_indent :: "nat \<Rightarrow> nat \<Rightarrow> pystr" where
  "newline_indent ind lvl = 10 # replicate (ind * lvl) 32"

text \<open>
  \<open>lvl\<close> is the nesting level of the value; the items of a container are written at
  level \<open>lvl + 1\<close>, separated by a comma and a new line, and the closing bracket at
  level \<open>lvl\<close>. An empty container is \<open>[]\<close> or \<open>{}\<close>.
\<close>

fun encode :: "('f \<Rightarrow> pystr) \<Rightarrow> nat \<Rightarrow> nat \<Rightarrow> 'f json \<Rightarrow> pystr"
  and encode_list :: "('f \<Rightarrow> pystr) \<Rightarrow> nat \<Rightarrow> nat \<Rightarrow> 'f json list \<Rightarrow> pystr"
  and encode_dict :: "('f \<Rightarrow> pystr) \<Rightarrow> nat \<Rightarrow> nat \<Rightarrow> (pystr \<times> 'f json) list \<Rightarrow> pystr"
where
  "encode fs ind lvl JNull = asc ''null''"
| "encode fs ind lvl (JBool b) = (if b then asc ''true'' else asc ''false'')"
| "encode fs ind lvl (JInt i) = int_repr i"
| "encode fs ind lvl (JFloat x) = fs x"
| "encode fs ind lvl (JStr s) = encode_basestring s"
| "encode fs ind lvl (JList []) = asc ''[]''"
| "encode fs ind lvl (JList (x # xs)) =
     [91] @ newline_indent ind (Suc lvl) @ encode_list fs ind (Suc lvl) (x # xs) @
     newline_indent ind lvl @ [93]"
| "encode fs ind lvl (JDict []) = asc ''{}''"
| "encode fs ind lvl (JDict (kv # kvs)) =
     [123] @ newline_indent ind (Suc lvl) @ encode_dict fs ind (Suc lvl) (kv # kvs) @
     newline_indent ind lvl @ [125]"
| "encode_list fs ind lvl [] = []"
| "encode_list fs ind lvl [x] = encode fs ind lvl x"
| "encode_list fs ind lvl (x # y # ys) =
     encode fs ind lvl x @ [44] @ newline_indent ind lvl @ encode_list fs ind lvl (y # ys)"
| "encode_dict fs ind lvl [] = []"
| "encode_dict fs ind lvl [(k, v)] = encode_basestring k @ [58, 32] @ encode fs ind lvl v"
| "encode_dict fs ind lvl ((k, v) # kv # kvs) =
     encode_basestring k @ [58, 32] @ encode fs ind lvl v @ [44] @ newline_indent ind lvl @
     encode_dict fs ind lvl (kv # kvs)"

definition json_dumps :: "('f \<Rightarrow> pystr) \<Rightarrow> nat \<Rightarrow> 'f json \<Rightarrow> pystr" where
  "json_dumps fs ind v = encode fs ind 0 v"

subsection \<open>\<open>json.loads\<close>\<close>

definition is_ws :: "nat \<Rightarrow> bool" where
  "is_ws c \<longleftrightarrow> c = 32 \<or> c = 9 \<or> c = 10 \<or> c = 13"

definition skip_ws :: "pystr \<Rightarrow> pystr" where
  "skip_ws s = dropWhile is_ws s"

definition is_digit :: "nat \<Rightarrow> bool" where
  "is_digit c \<longleftrightarrow> 48 \<le> c \<and> c \<le> 57"

definition hex_val :: "nat \<Rightarrow> nat option" where
  "hex_val c =
     (if 48 \<le> c \<and> c \<le> 57 then Some (c - 48)
      else if 97 \<le> c \<and> c \<le> 102 then Some (c - 87)
      else if 65 \<le> c \<and> c \<le> 70 then Some (c - 55)
      else None)"

text \<open>The four hexadecimal digits after \<open>\u\<close>; anything else is an invalid escape.\<close>

definition decode_uXXXX :: "pystr \<Rightarrow> nat option" where
  "decode_uXXXX s =
     (case map hex_val (take 4 s) of
        [Some a, Some b, Some c, Some d] \<Rightarrow> Some (a * 4096 + b * 256 + c * 16 + d)
      | _ \<Rightarrow> None)"

text \<open>The table \<open>BACKSLASH\<close> of \<open>json.decoder\<close>.\<close>

definition backslash :: "nat \<Rightarrow> nat option" where
  "backslash e =
     (if e = 34 then Some 34
      else if e = 92 then Some 92
      else if e = 47 then Some 47
      else if e = 98 then Some 8
      else if e = 102 then Some 12
      else if e = 110 then Some 10
      else if e = 114 then Some 13
      else if e = 116 then Some 9
      else None)"

definition consc :: "nat \<Rightarrow> (pystr \<times> pystr) option \<Rightarrow> (pystr \<times> pystr) option" where
  "consc c r = map_option (\<lambda>(str, rest). (c # str, rest)) r"

text \<open>
  \<open>scanstring\<close> in strict mode, from the character after the opening quote: the string
  and the text after the closing quote. \<open>None\<close> is a \<open>JSONDecodeError\<close> (unterminated
  string, control character, invalid escape). A high surrogate escape followed by a
  low surrogate escape is one code point.
\<close>

fun scanstring :: "pystr \<Rightarrow> (pystr \<times> pystr) option" where
  "scanstring [] = None"
| "scanstring (c # s) =
     (if c = 34 then Some ([], s)
      else if c = 92 then
        (case s of
           [] \<Rightarrow> None
         | e # s1 \<Rightarrow>
             if e = 117 then
               (case decode_uXXXX s1 of
                  None \<Rightarrow> None
                | Some uni \<Rightarrow>
                    if 55296 \<le> uni \<and> uni \<le> 56319 \<and> take 2 (drop 4 s1) = [92, 117] then
                      (case decode_uXXXX (drop 6 s1) of
                         None \<Rightarrow> None
                       | Some uni2 \<Rightarrow>
                           if 56320 \<le> uni2 \<and> uni2 \<le> 57343
                           then consc (65536 + ((uni - 55296) * 1024 + (uni2 - 56320)))
                                  (scanstring (drop 10 s1))
                           else consc uni (scanstring (drop 4 s1)))
                    else consc uni (scanstring (drop 4 s1)))
             else
               (case backslash e of
                  None \<Rightarrow> None
                | Some ch \<Rightarrow> consc ch (scanstring s1)))
      else if c < 32 then None
      else consc c (scanstring s))"

text \<open>
  \<open>NUMBER_RE\<close>: \<open>(-?(?:0|[1-9][0-9]*))(\.[0-9]+)?([eE][-+]?[0-9]+)?\<close> matched at the start
  of the text: the integer part, the fraction and the exponent (empty when absent)
  and the text after the match.
\<close>

definition match_int :: "pystr \<Rightarrow> (pystr \<times> pystr) option" where
  "match_int s =
     (let (sign, s1) = (case s of c # t \<Rightarrow> if c = 45 then ([45], t) else ([], s) | [] \<Rightarrow> ([], s))
      in case s1 of
           [] \<Rightarrow> None
         | d # s2 \<Rightarrow>
             if d = 48 then Some (sign @ [48], s2)
             else if 49 \<le> d \<and> d \<le> 57
             then Some (sign @ d # takeWhile is_digit s2, dropWhile is_digit s2)
             else None)"

definition match_frac :: "pystr \<Rightarrow> pystr \<times> pystr" where
  "match_frac s =
     (case s of
        c # t \<Rightarrow>
          if c = 46 \<and> takeWhile is_digit t \<noteq> []
          then (46 # takeWhile is_digit t, dropWhile is_digit t)
          else ([], s)
      | [] \<Rightarrow> ([], s))"

definition match_exp :: "pystr \<Rightarrow> pystr \<times> pystr" where
  "match_exp s =
     (case s of
        c # t \<Rightarrow>
          if c = 101 \<or> c = 69 then
            (let (sg, t1) =
               (case t of g # u \<Rightarrow> if g = 45 \<or> g = 43 then ([g], u) else ([], t) | [] \<Rightarrow> ([], t))
             in if takeWhile is_digit t1 \<noteq> []
                then (c # sg @ takeWhile is_digit t1, dropWhile is_digit t1)
                else ([], s))
          else ([], s)
      | [] \<Rightarrow> ([], s))"

definition match_number :: "pystr \<Rightarrow> (pystr \<times> pystr \<times> pystr \<times> pystr) option" where
  "match_number s =
     (case match_int s of
        None \<Rightarrow> None
      | Some (integer, r1) \<Rightarrow>
          (let (frac, r2) = match_frac r1; (exp, r3) = match_exp r2
           in Some (integer, frac, exp, r3)))"

text \<open>\<open>int(text)\<close> for a text matched by the integer part of \<open>NUMBER_RE\<close>.\<close>

definition digits_val :: "pystr \<Rightarrow> nat" where
  "digits_val ds = foldl (\<lambda>a d. 10 * a + (d - 48)) 0 ds"

definition py_int :: "pystr \<Rightarrow> int" where
  "py_int s =
     (case s of
        c # t \<Rightarrow> if c = 45 then - int (digits_val t) else int (digits_val s)
      | [] \<Rightarrow> 0)"

text \<open>
  The scanner. \<open>scan_once\<close> reads one value at the start of the text; \<open>members\<close> reads
  the items of an object from the character after the opening quote of a key, and
  \<open>elements\<close> the items of an array from its first value; both loops of the source
  (\<open>JSONObject\<close>, \<open>JSONArray\<close>) collect the items in order.

  The first argument bounds the number of nested calls. \<open>Exhausted\<close> is the bound
  running out, \<open>Invalid\<close> is a \<open>JSONDecodeError\<close>. \<open>json_loads\<close> starts with a bound that
  the text cannot use up (\<open>scan_once_not_Exhausted\<close> below).
\<close>

datatype 'a scan = Scanned 'a pystr | Invalid | Exhausted

fun scan_once :: "(pystr \<Rightarrow> 'f) \<Rightarrow> nat \<Rightarrow> pystr \<Rightarrow> 'f json scan"
  and members :: "(pystr \<Rightarrow> 'f) \<Rightarrow> nat \<Rightarrow> pystr \<Rightarrow> (pystr \<times> 'f json) list scan"
  and elements :: "(pystr \<Rightarrow> 'f) \<Rightarrow> nat \<Rightarrow> pystr \<Rightarrow> 'f json list scan"
where
  "scan_once ff 0 s = Exhausted"
| "scan_once ff (Suc n) s =
     (case s of
        [] \<Rightarrow> Invalid
      | c # t \<Rightarrow>
          if c = 34 then
            (case scanstring t of
               None \<Rightarrow> Invalid
             | Some (str, r) \<Rightarrow> Scanned (JStr str) r)
          else if c = 123 then
            (case skip_ws t of
               [] \<Rightarrow> Invalid
             | d # r \<Rightarrow>
                 if d = 125 then Scanned (JDict []) r
                 else if d = 34 then
                   (case members ff n r of
                      Scanned pairs r1 \<Rightarrow> Scanned (JDict (dict_of pairs)) r1
                    | Invalid \<Rightarrow> Invalid
                    | Exhausted \<Rightarrow> Exhausted)
                 else Invalid)
          else if c = 91 then
            (case skip_ws t of
               [] \<Rightarrow> Invalid
             | d # r \<Rightarrow>
                 if d = 93 then Scanned (JList []) r
                 else
                   (case elements ff n (d # r) of
                      Scanned vs r1 \<Rightarrow> Scanned (JList vs) r1
                    | Invalid \<Rightarrow> Invalid
                    | Exhausted \<Rightarrow> Exhausted))
          else if c = 110 \<and> take 4 s = asc ''null'' then Scanned JNull (drop 4 s)
          else if c = 116 \<and> take 4 s = asc ''true'' then Scanned (JBool True) (drop 4 s)
          else if c = 102 \<and> take 5 s = asc ''false'' then Scanned (JBool False) (drop 5 s)
          else
            (case match_number s of
               Some (integer, frac, exp, r) \<Rightarrow>
                 if frac \<noteq> [] \<or> exp \<noteq> []
                 then Scanned (JFloat (ff (integer @ frac @ exp))) r
                 else Scanned (JInt (py_int integer)) r
             | None \<Rightarrow>
                 if c = 78 \<and> take 3 s = asc ''NaN''
                 then Scanned (JFloat (ff (asc ''NaN''))) (drop 3 s)
                 else if c = 73 \<and> take 8 s = asc ''Infinity''
                 then Scanned (JFloat (ff (asc ''Infinity''))) (drop 8 s)
                 else if c = 45 \<and> take 9 s = asc ''-Infinity''
                 then Scanned (JFloat (ff (asc ''-Infinity''))) (drop 9 s)
                 else Invalid))"
| "members ff 0 s = Exhausted"
| "members ff (Suc n) s =
     (case scanstring s of
        None \<Rightarrow> Invalid
      | Some (key, r1) \<Rightarrow>
          (case skip_ws r1 of
             [] \<Rightarrow> Invalid
           | c # r2 \<Rightarrow>
               if c \<noteq> 58 then Invalid
               else
                 (case scan_once ff n (skip_ws r2) of
                    Invalid \<Rightarrow> Invalid
                  | Exhausted \<Rightarrow> Exhausted
                  | Scanned v r3 \<Rightarrow>
                      (case skip_ws r3 of
                         [] \<Rightarrow> Invalid
                       | d # r4 \<Rightarrow>
                           if d = 125 then Scanned [(key, v)] r4
                           else if d \<noteq> 44 then Invalid
                           else
                             (case skip_ws r4 of
                                [] \<Rightarrow> Invalid
                              | q # r5 \<Rightarrow>
                                  if q \<noteq> 34 then Invalid
                                  else
                                    (case members ff n r5 of
                                       Scanned pairs r6 \<Rightarrow> Scanned ((key, v) # pairs) r6
                                     | Invalid \<Rightarrow> Invalid
                                     | Exhausted \<Rightarrow> Exhausted))))))"
| "elements ff 0 s = Exhausted"
| "elements ff (Suc n) s =
     (case scan_once ff n s of
        Invalid \<Rightarrow> Invalid
      | Exhausted \<Rightarrow> Exhausted
      | Scanned v r \<Rightarrow>
          (case skip_ws r of
             [] \<Rightarrow> Invalid
           | d # r1 \<Rightarrow>
               if d = 93 then Scanned [v] r1
               else if d \<noteq> 44 then Invalid
               else
                 (case elements ff n (skip_ws r1) of
                    Scanned vs r2 \<Rightarrow> Scanned (v # vs) r2
                  | Invalid \<Rightarrow> Invalid
                  | Exhausted \<Rightarrow> Exhausted)))"

text \<open>
  \<open>json.loads(s)\<close>: a leading byte order mark is refused; white space may surround the
  value; anything else after it is \<open>Extra data\<close>. \<open>None\<close> is \<open>JSONDecodeError\<close>.
\<close>

definition json_loads :: "(pystr \<Rightarrow> 'f) \<Rightarrow> pystr \<Rightarrow> 'f json option" where
  "json_loads ff s =
     (if take 1 s = [65279] then None
      else
        (case scan_once ff (2 * length s + 2) (skip_ws s) of
           Scanned v r \<Rightarrow> if skip_ws r = [] then Some v else None
         | Invalid \<Rightarrow> None
         | Exhausted \<Rightarrow> None))"

section \<open>Exceptions, the environment, the file system and the service\<close>

text \<open>
  Every \<open>raise\<close> of the source and every exception of a library call the program makes
  is a constructor. The comment gives the Python class, which decides the \<open>except\<close>
  clause that catches it.
\<close>

datatype pyclass =
    C_Exception
  | C_OSError
  | C_FileNotFoundError
  | C_ValueError
  | C_JSONDecodeError
  | C_UnicodeError

text \<open>
  The classes from the most specific to \<open>Exception\<close>: \<open>FileNotFoundError\<close> is an
  \<open>OSError\<close>; \<open>json.JSONDecodeError\<close> and \<open>UnicodeError\<close> are subclasses of \<open>ValueError\<close>.
\<close>

fun mro :: "pyclass \<Rightarrow> pyclass list" where
  "mro C_Exception = [C_Exception]"
| "mro C_OSError = [C_OSError, C_Exception]"
| "mro C_FileNotFoundError = [C_FileNotFoundError, C_OSError, C_Exception]"
| "mro C_ValueError = [C_ValueError, C_Exception]"
| "mro C_JSONDecodeError = [C_JSONDecodeError, C_ValueError, C_Exception]"
| "mro C_UnicodeError = [C_UnicodeError, C_ValueError, C_Exception]"

datatype exn =
    MissingApiKey           \<comment> \<open>\<open>ValueError\<close>: \<open>OPENAI_API_KEY\<close> not found\<close>
  | MissingModel            \<comment> \<open>\<open>ValueError\<close>: \<open>OPENAI_MODEL\<close> not found\<close>
  | MissingTtsModel         \<comment> \<open>\<open>ValueError\<close>: \<open>OPENAI_TTS_MODEL\<close> not found\<close>
  | MissingTtsVoice         \<comment> \<open>\<open>ValueError\<close>: \<open>OPENAI_TTS_VOICE\<close> not found\<close>
  | ImageNotFound pystr     \<comment> \<open>\<open>FileNotFoundError\<close> of \<open>analyze_stamp\<close>\<close>
  | JsonFileNotFound pystr  \<comment> \<open>\<open>FileNotFoundError\<close> of \<open>load_json_result\<close>\<close>
  | EmptyChoices            \<comment> \<open>\<open>ValueError\<close>: empty list of choices\<close>
  | NoMessage               \<comment> \<open>\<open>ValueError\<close>: answer without message\<close>
  | EmptyAnswer             \<comment> \<open>\<open>ValueError\<close>: the model returned an empty answer\<close>
  | EmptyVoiceScript        \<comment> \<open>\<open>ValueError\<close>: the model returned an empty narration\<close>
  | EmptyAudio              \<comment> \<open>\<open>ValueError\<close>: no audio was generated\<close>
  | JSONDecodeError         \<comment> \<open>raised by \<open>json.loads\<close>\<close>
  | UnicodeEncodeError      \<comment> \<open>raised by a text write\<close>
  | UnicodeDecodeError      \<comment> \<open>raised by a text read\<close>
  | NoSuchFile pystr        \<comment> \<open>\<open>FileNotFoundError\<close> of \<open>open\<close> or \<open>mkdir\<close>\<close>
  | IsADirectoryError pystr
  | NotADirectoryError pystr
  | FileExistsError pystr
  | ServiceError pyclass nat \<comment> \<open>raised by the client of the service\<close>

fun class_of :: "exn \<Rightarrow> pyclass" where
  "class_of (ImageNotFound p) = C_FileNotFoundError"
| "class_of (JsonFileNotFound p) = C_FileNotFoundError"
| "class_of (NoSuchFile p) = C_FileNotFoundError"
| "class_of (IsADirectoryError p) = C_OSError"
| "class_of (NotADirectoryError p) = C_OSError"
| "class_of (FileExistsError p) = C_OSError"
| "class_of JSONDecodeError = C_JSONDecodeError"
| "class_of UnicodeEncodeError = C_UnicodeError"
| "class_of UnicodeDecodeError = C_UnicodeError"
| "class_of (ServiceError c n) = c"
| "class_of e = C_ValueError"

definition isinstance :: "exn \<Rightarrow> pyclass \<Rightarrow> bool" where
  "isinstance e c \<longleftrightarrow> c \<in> set (mro (class_of e))"

subsection \<open>The service\<close>

datatype fixed_text =
    SYSTEM_PROMPT
  | VOICE_SCRIPT_PROMPT
  | ANALYZE_INSTRUCTION  \<comment> \<open>the text part of the user turn of \<open>analyze_stamp\<close>\<close>
  | STAMP_DATA_LABEL     \<comment> \<open>the label before \<open>data_str\<close> in \<open>generate_voice_script\<close>\<close>

datatype part = TextPart fixed_text | ImageUrlPart pystr

datatype content = Parts "part list" | Fixed fixed_text | Labelled fixed_text pystr

datatype role = System | User

record chat_request =
  cr_api_key :: pystr
  cr_model :: pystr
  cr_messages :: "(role \<times> content) list"
  cr_temperature :: string
  cr_json_object :: bool

record speech_request =
  sr_api_key :: pystr
  sr_model :: pystr
  sr_voice :: pystr
  sr_input :: pystr
  sr_response_format :: pystr

datatype message = Message (content: "pystr option")

datatype choice = Choice (message: "message option")

datatype chat_response = ChatResponse (choices: "choice list")

datatype net_call = ChatCall chat_request | SpeechCall speech_request

subsection \<open>What the program runs on\<close>

text \<open>
  The parameters of a run that are not the repository's code: Python's \<open>float\<close>
  (\<open>float(text)\<close> and the text \<open>json\<close> writes for a float), Unicode lower-casing beyond
  ASCII, what a \<open>json.dump\<close> that fails in the middle leaves in the file (it writes in
  pieces), and the answers of the remote service to a request (an exception of the
  client, or a response).
\<close>

record 'f platform =
  float_of :: "pystr \<Rightarrow> 'f"
  floatstr :: "'f \<Rightarrow> pystr"
  unicode_lower :: "nat \<Rightarrow> pystr"
  torn_dump :: "pystr \<Rightarrow> bytes"
  chat_completions_create :: "chat_request \<Rightarrow> exn + chat_response"
  audio_speech_create :: "speech_request \<Rightarrow> exn + bytes"

subsection \<open>The world a run changes\<close>

datatype node = File bytes | Dir

datatype msg =
    Analyzing pystr        \<comment> \<open>line 205\<close>
  | ResultHeader           \<comment> \<open>line 212\<close>
  | ResultText pystr       \<comment> \<open>line 213\<close>
  | ResultSaved pystr      \<comment> \<open>line 223\<close>
  | GeneratingVoice        \<comment> \<open>line 228\<close>
  | ScriptSaved pystr      \<comment> \<open>line 230, and 224 of \<open>json_to_voice.py\<close>\<close>
  | AudioSaved pystr       \<comment> \<open>line 231, and 225 of \<open>json_to_voice.py\<close>\<close>
  | VoiceWarning exn       \<comment> \<open>line 233\<close>
  | ErrorMsg exn           \<comment> \<open>line 236: the message of the exception\<close>
  | ConfigErrorMsg exn     \<comment> \<open>line 239: "configuration error" and the message\<close>
  | JsonErrorMsg exn       \<comment> \<open>line 242: "could not parse the JSON answer"\<close>
  | ModelAnswer pystr      \<comment> \<open>line 243: the answer of the model\<close>
  | UnexpectedMsg exn      \<comment> \<open>line 246\<close>

text \<open>
  \<open>environ\<close> is the process environment after \<open>load_dotenv()\<close>; \<open>files\<close> maps the text
  of a path to what is there (one text, one file: no links, no \<open>..\<close>); \<open>net\<close> is the
  list of requests sent to the service, \<open>out\<close> and \<open>err\<close> the two output streams.
\<close>

record world =
  environ :: "string \<rightharpoonup> pystr"
  files :: "pystr \<rightharpoonup> node"
  net :: "net_call list"
  out :: "msg list"
  err :: "msg list"

definition falsy :: "pystr option \<Rightarrow> bool" where
  "falsy v \<longleftrightarrow> v = None \<or> v = Some []"

definition getenv_default :: "world \<Rightarrow> string \<Rightarrow> pystr \<Rightarrow> pystr option" where
  "getenv_default w k d = (case environ w k of None \<Rightarrow> Some d | Some v \<Rightarrow> Some v)"

text \<open>The current directory and the root are always there.\<close>

definition node_at :: "world \<Rightarrow> pystr \<Rightarrow> node option" where
  "node_at w p =
     (if p = [] then None
      else if p = [46] \<or> p = [47] \<or> p = [47, 47] then Some Dir
      else files w p)"

definition path_exists :: "world \<Rightarrow> pystr \<Rightarrow> bool" where
  "path_exists w p \<longleftrightarrow> node_at w p \<noteq> None"

definition print_out :: "msg list \<Rightarrow> world \<Rightarrow> world" where
  "print_out ms w = w\<lparr>out := out w @ ms\<rparr>"

definition print_err :: "msg list \<Rightarrow> world \<Rightarrow> world" where
  "print_err ms w = w\<lparr>err := err w @ ms\<rparr>"

definition read_bytes :: "pystr \<Rightarrow> world \<Rightarrow> exn + bytes" where
  "read_bytes p w =
     (case node_at w p of
        None \<Rightarrow> Inl (NoSuchFile p)
      | Some Dir \<Rightarrow> Inl (IsADirectoryError p)
      | Some (File bs) \<Rightarrow> Inr bs)"

text \<open>\<open>open(p, "r", encoding="utf-8").read()\<close>\<close>

definition read_text :: "pystr \<Rightarrow> world \<Rightarrow> exn + pystr" where
  "read_text p w =
     (case read_bytes p w of
        Inl e \<Rightarrow> Inl e
      | Inr bs \<Rightarrow>
          (case utf8_decode bs of
             None \<Rightarrow> Inl UnicodeDecodeError
           | Some t \<Rightarrow> Inr (universal_newlines t)))"

text \<open>
  Opening a path for writing: it must not be a directory, and its parent must be one.
\<close>

definition open_w :: "ppath \<Rightarrow> world \<Rightarrow> exn + unit" where
  "open_w p w =
     (case node_at w (path_str p) of
        Some Dir \<Rightarrow> Inl (IsADirectoryError (path_str p))
      | _ \<Rightarrow>
          (case node_at w (path_str (path_parent p)) of
             Some Dir \<Rightarrow> Inr ()
           | Some (File bs) \<Rightarrow> Inl (NotADirectoryError (path_str p))
           | None \<Rightarrow> Inl (NoSuchFile (path_str p))))"

definition put_file :: "ppath \<Rightarrow> bytes \<Rightarrow> world \<Rightarrow> world" where
  "put_file p bs w = w\<lparr>files := (files w)(path_str p \<mapsto> File bs)\<rparr>"

text \<open>
  \<open>with open(p, "w", encoding="utf-8") as f: f.write(text)\<close>. The file is created or
  emptied when it is opened; a text that cannot be encoded leaves it empty.
\<close>

definition write_text :: "ppath \<Rightarrow> pystr \<Rightarrow> world \<Rightarrow> (exn + unit) \<times> world" where
  "write_text p text w =
     (case open_w p w of
        Inl e \<Rightarrow> (Inl e, w)
      | Inr u \<Rightarrow>
          (case utf8_encode text of
             None \<Rightarrow> (Inl UnicodeEncodeError, put_file p [] w)
           | Some bs \<Rightarrow> (Inr (), put_file p bs w)))"

definition write_bytes :: "ppath \<Rightarrow> bytes \<Rightarrow> world \<Rightarrow> (exn + unit) \<times> world" where
  "write_bytes p bs w =
     (case open_w p w of
        Inl e \<Rightarrow> (Inl e, w)
      | Inr u \<Rightarrow> (Inr (), put_file p bs w))"

text \<open>
  \<open>with open(p, "w", encoding="utf-8") as f: json.dump(obj, f, ensure_ascii=False,
  indent=ind)\<close>: the text of \<open>json.dumps\<close>, written in pieces.
\<close>

definition json_dump ::
  "'f platform \<Rightarrow> nat \<Rightarrow> 'f json \<Rightarrow> ppath \<Rightarrow> world \<Rightarrow> (exn + unit) \<times> world" where
  "json_dump P ind obj p w =
     (case open_w p w of
        Inl e \<Rightarrow> (Inl e, w)
      | Inr u \<Rightarrow>
          (case utf8_encode (json_dumps (floatstr P) ind obj) of
             None \<Rightarrow>
               (Inl UnicodeEncodeError,
                put_file p (torn_dump P (json_dumps (floatstr P) ind obj)) w)
           | Some bs \<Rightarrow> (Inr (), put_file p bs w)))"

text \<open>\<open>Path.mkdir(exist_ok=True)\<close>\<close>

definition mkdir :: "ppath \<Rightarrow> world \<Rightarrow> exn + world" where
  "mkdir p w =
     (case node_at w (path_str p) of
        Some Dir \<Rightarrow> Inr w
      | Some (File bs) \<Rightarrow> Inl (FileExistsError (path_str p))
      | None \<Rightarrow>
          (case node_at w (path_str (path_parent p)) of
             Some Dir \<Rightarrow> Inr (w\<lparr>files := (files w)(path_str p \<mapsto> Dir)\<rparr>)
           | Some (File bs) \<Rightarrow> Inl (NotADirectoryError (path_str p))
           | None \<Rightarrow> Inl (NoSuchFile (path_str p))))"

section \<open>\<open>analyze_stamp.py\<close>\<close>

definition text_of :: "pystr option \<Rightarrow> pystr" where
  "text_of v = (case v of None \<Rightarrow> [] | Some s \<Rightarrow> s)"

definition encode_image :: "pystr \<Rightarrow> world \<Rightarrow> exn + pystr" where
  "encode_image image_path w =
     (case read_bytes image_path w of
        Inl e \<Rightarrow> Inl e
      | Inr bs \<Rightarrow> Inr (b64encode bs))"

definition analyze_request :: "pystr \<Rightarrow> pystr \<Rightarrow> pystr \<Rightarrow> pystr \<Rightarrow> chat_request" where
  "analyze_request api_key model mime base64_image =
     \<lparr>cr_api_key = api_key, cr_model = model,
      cr_messages =
        [(System, Fixed SYSTEM_PROMPT),
         (User, Parts [TextPart ANALYZE_INSTRUCTION,
                       ImageUrlPart (asc ''data:'' @ mime @ asc '';base64,'' @ base64_image)])],
      cr_temperature = ''0.1'', cr_json_object = True\<rparr>"

text \<open>
  \<open>analyze_stamp(image_path)\<close>: the result or the exception, and the world after the
  call. The request is recorded in \<open>net\<close> when \<open>client.chat.completions.create\<close> is
  called, whatever it answers.
\<close>

definition analyze_stamp ::
  "'f platform \<Rightarrow> pystr \<Rightarrow> world \<Rightarrow> (exn + pystr) \<times> world" where
  "analyze_stamp P image_path w =
     (let api_key = environ w ''OPENAI_API_KEY'';
          model = environ w ''OPENAI_MODEL''
      in if falsy api_key then (Inl MissingApiKey, w)
         else if falsy model then (Inl MissingModel, w)
         else if \<not> path_exists w image_path then (Inl (ImageNotFound image_path), w)
         else
           (case encode_image image_path w of
              Inl e \<Rightarrow> (Inl e, w)
            | Inr base64_image \<Rightarrow>
                (let request =
                       analyze_request (text_of api_key) (text_of model)
                         (mime_type (unicode_lower P) image_path) base64_image;
                     w1 = w\<lparr>net := net w @ [ChatCall request]\<rparr>
                 in case chat_completions_create P request of
                      Inl e \<Rightarrow> (Inl e, w1)
                    | Inr response \<Rightarrow>
                        (case choices response of
                           [] \<Rightarrow> (Inl EmptyChoices, w1)
                         | ch # chs \<Rightarrow>
                             (case message ch of
                                None \<Rightarrow> (Inl NoMessage, w1)
                              | Some m \<Rightarrow>
                                  if falsy (content m) then (Inl EmptyAnswer, w1)
                                  else (Inr (text_of (content m)), w1))))))"

section \<open>\<open>json_to_voice.py\<close>\<close>

definition load_json_result :: "'f platform \<Rightarrow> pystr \<Rightarrow> world \<Rightarrow> exn + 'f json" where
  "load_json_result P json_path w =
     (if \<not> path_exists w json_path then Inl (JsonFileNotFound json_path)
      else
        (case read_text json_path w of
           Inl e \<Rightarrow> Inl e
         | Inr t \<Rightarrow>
             (case json_loads (float_of P) t of
                None \<Rightarrow> Inl JSONDecodeError
              | Some v \<Rightarrow> Inr v)))"

definition voice_request :: "pystr \<Rightarrow> pystr \<Rightarrow> pystr \<Rightarrow> chat_request" where
  "voice_request api_key model data_str =
     \<lparr>cr_api_key = api_key, cr_model = model,
      cr_messages =
        [(System, Fixed VOICE_SCRIPT_PROMPT), (User, Labelled STAMP_DATA_LABEL data_str)],
      cr_temperature = ''0.2'', cr_json_object = False\<rparr>"

definition generate_voice_script ::
  "'f platform \<Rightarrow> 'f json \<Rightarrow> pystr option \<Rightarrow> pystr option \<Rightarrow> world \<Rightarrow>
   (exn + pystr) \<times> world" where
  "generate_voice_script P stamp_data api_key model w =
     (if falsy api_key then (Inl MissingApiKey, w)
      else if falsy model then (Inl MissingModel, w)
      else
        (let data_str = json_dumps (floatstr P) 2 stamp_data;
             request = voice_request (text_of api_key) (text_of model) data_str;
             w1 = w\<lparr>net := net w @ [ChatCall request]\<rparr>
         in case chat_completions_create P request of
              Inl e \<Rightarrow> (Inl e, w1)
            | Inr response \<Rightarrow>
                (case choices response of
                   [] \<Rightarrow> (Inl EmptyChoices, w1)
                 | ch # chs \<Rightarrow>
                     (case message ch of
                        None \<Rightarrow> (Inl NoMessage, w1)
                      | Some m \<Rightarrow>
                          if falsy (content m) then (Inl EmptyVoiceScript, w1)
                          else (Inr (py_strip (text_of (content m))), w1)))))"

definition generate_audio ::
  "'f platform \<Rightarrow> pystr \<Rightarrow> pystr option \<Rightarrow> pystr option \<Rightarrow> pystr option \<Rightarrow> pystr \<Rightarrow>
   world \<Rightarrow> (exn + bytes) \<times> world" where
  "generate_audio P voice_script api_key tts_model tts_voice tts_format w =
     (if falsy api_key then (Inl MissingApiKey, w)
      else if falsy tts_model then (Inl MissingTtsModel, w)
      else if falsy tts_voice then (Inl MissingTtsVoice, w)
      else
        (let request =
               \<lparr>sr_api_key = text_of api_key, sr_model = text_of tts_model,
                sr_voice = text_of tts_voice, sr_input = voice_script,
                sr_response_format = tts_format\<rparr>;
             w1 = w\<lparr>net := net w @ [SpeechCall request]\<rparr>
         in case audio_speech_create P request of
              Inl e \<Rightarrow> (Inl e, w1)
            | Inr audio_data \<Rightarrow>
                if audio_data = [] then (Inl EmptyAudio, w1) else (Inr audio_data, w1)))"

text \<open>
  \<open>json_to_voice(json_path, output_dir)\<close>: the two paths it returns, or the exception,
  and the world after the call.
\<close>

definition json_to_voice ::
  "'f platform \<Rightarrow> pystr \<Rightarrow> pystr \<Rightarrow> world \<Rightarrow> (exn + pystr \<times> pystr) \<times> world" where
  "json_to_voice P json_path output_dir w =
     (let api_key = environ w ''OPENAI_API_KEY'';
          model = environ w ''OPENAI_MODEL'';
          tts_model = getenv_default w ''OPENAI_TTS_MODEL'' (asc ''tts-1'');
          tts_voice = getenv_default w ''OPENAI_TTS_VOICE'' (asc ''alloy'');
          tts_format = text_of (getenv_default w ''OPENAI_TTS_FORMAT'' (asc ''mp3''))
      in if falsy api_key then (Inl MissingApiKey, w)
         else if falsy model then (Inl MissingModel, w)
         else
           (case load_json_result P json_path w of
              Inl e \<Rightarrow> (Inl e, w)
            | Inr stamp_data \<Rightarrow>
                (case generate_voice_script P stamp_data api_key model w of
                   (Inl e, w1) \<Rightarrow> (Inl e, w1)
                 | (Inr voice_script, w1) \<Rightarrow>
                     (case generate_audio P voice_script api_key tts_model tts_voice
                             tts_format w1 of
                        (Inl e, w2) \<Rightarrow> (Inl e, w2)
                      | (Inr audio_data, w2) \<Rightarrow>
                          (let output_path = Path output_dir in
                           case mkdir output_path w2 of
                             Inl e \<Rightarrow> (Inl e, w2)
                           | Inr w3 \<Rightarrow>
                               (let script_file =
                                      path_join output_path (asc ''voice_script.txt'')
                                in case write_text script_file voice_script w3 of
                                     (Inl e, w4) \<Rightarrow> (Inl e, w4)
                                   | (Inr u, w4) \<Rightarrow>
                                       (let audio_file =
                                              path_join output_path
                                                (asc ''result.'' @ tts_format)
                                        in case write_bytes audio_file audio_data w4 of
                                             (Inl e, w5) \<Rightarrow> (Inl e, w5)
                                           | (Inr u', w5) \<Rightarrow>
                                               (Inr (path_str script_file,
                                                     path_str audio_file), w5))))))))"

text \<open>
  The \<open>except\<close> clauses of both \<open>main\<close> functions, tried in the order of the source:
  the exit status and what is printed to the error stream. \<open>result\<close> is the variable
  of \<open>main\<close> in \<open>analyze_stamp.py\<close>, bound once \<open>analyze_stamp\<close> has returned.
\<close>

definition voice_main_handlers :: "exn \<Rightarrow> world \<Rightarrow> nat \<times> world" where
  "voice_main_handlers e w =
     (if isinstance e C_FileNotFoundError then (1, print_err [ErrorMsg e] w)
      else if isinstance e C_ValueError then (1, print_err [ConfigErrorMsg e] w)
      else (1, print_err [UnexpectedMsg e] w))"

text \<open>\<open>main\<close> of \<open>json_to_voice.py\<close>, after the arguments are parsed.\<close>

definition voice_main :: "'f platform \<Rightarrow> pystr \<Rightarrow> pystr \<Rightarrow> world \<Rightarrow> nat \<times> world" where
  "voice_main P json_path output_dir w =
     (case json_to_voice P json_path output_dir w of
        (Inl e, w1) \<Rightarrow> voice_main_handlers e w1
      | (Inr (script_file, audio_file), w1) \<Rightarrow>
          (0, print_out [ScriptSaved script_file, AudioSaved audio_file] w1))"

section \<open>\<open>main\<close> of \<open>analyze_stamp.py\<close>\<close>

definition main_handlers :: "exn \<Rightarrow> pystr option \<Rightarrow> world \<Rightarrow> nat \<times> world" where
  "main_handlers e result w =
     (if isinstance e C_FileNotFoundError then (1, print_err [ErrorMsg e] w)
      else if isinstance e C_ValueError then (1, print_err [ConfigErrorMsg e] w)
      else if isinstance e C_JSONDecodeError then
        (case result of
           Some r \<Rightarrow> (1, print_err [JsonErrorMsg e, ModelAnswer r] w)
         | None \<Rightarrow> (1, print_err [JsonErrorMsg e] w))
      else (1, print_err [UnexpectedMsg e] w))"

definition output_dir :: ppath where
  "output_dir = Path (asc ''output'')"

definition output_file :: ppath where
  "output_file = path_join output_dir (asc ''result.json'')"

text \<open>
  \<open>main\<close>, after the arguments are parsed: \<open>image_path\<close> and the flag \<open>--tts\<close>. The
  exit status (0 when \<open>main\<close> returns) and the world after the run.
\<close>

definition main :: "'f platform \<Rightarrow> pystr \<Rightarrow> bool \<Rightarrow> world \<Rightarrow> nat \<times> world" where
  "main P image_path tts w =
     (case analyze_stamp P image_path (print_out [Analyzing image_path] w) of
        (Inl e, w1) \<Rightarrow> main_handlers e None w1
      | (Inr result, w1) \<Rightarrow>
          (case json_loads (float_of P) result of
             None \<Rightarrow> main_handlers JSONDecodeError (Some result) w1
           | Some result_json \<Rightarrow>
               (let w2 = print_out
                           [ResultHeader, ResultText (json_dumps (floatstr P) 2 result_json)] w1
                in case mkdir output_dir w2 of
                     Inl e \<Rightarrow> main_handlers e (Some result) w2
                   | Inr w3 \<Rightarrow>
                       (case json_dump P 2 result_json output_file w3 of
                          (Inl e, w4) \<Rightarrow> main_handlers e (Some result) w4
                        | (Inr u, w4) \<Rightarrow>
                            (let w5 = print_out [ResultSaved (path_str output_file)] w4 in
                             if tts then
                               (case json_to_voice P (path_str output_file)
                                       (path_str output_dir)
                                       (print_out [GeneratingVoice] w5) of
                                  (Inl e, w6) \<Rightarrow> (0, print_err [VoiceWarning e] w6)
                                | (Inr (script_file, audio_file), w6) \<Rightarrow>
                                    (0, print_out [ScriptSaved script_file,
                                                   AudioSaved audio_file] w6))
                             else (0, w5))))))"

section \<open>Notions used in the statements\<close>

text \<open>
  A response that \<open>analyze_stamp\<close> rejects: no choice, a first choice without message,
  or a message whose content is missing or empty.
\<close>

definition empty_response :: "chat_response \<Rightarrow> bool" where
  "empty_response r =
     (case choices r of
        [] \<Rightarrow> True
      | ch # chs \<Rightarrow> (case message ch of None \<Rightarrow> True | Some m \<Rightarrow> falsy (content m)))"

text \<open>The configured audio format: \<open>os.getenv("OPENAI_TTS_FORMAT", "mp3")\<close>.\<close>

definition tts_format_of :: "world \<Rightarrow> pystr" where
  "tts_format_of w = text_of (getenv_default w ''OPENAI_TTS_FORMAT'' (asc ''mp3''))"

definition script_path :: "pystr \<Rightarrow> ppath" where
  "script_path od = path_join (Path od) (asc ''voice_script.txt'')"

definition audio_path :: "pystr \<Rightarrow> pystr \<Rightarrow> ppath" where
  "audio_path od fmt = path_join (Path od) (asc ''result.'' @ fmt)"

text \<open>
  The exceptions of opening and writing a file; every other exception of
  \<open>json_to_voice\<close> is raised before it writes.
\<close>

fun write_error :: "exn \<Rightarrow> bool" where
  "write_error (NoSuchFile p) = True"
| "write_error (IsADirectoryError p) = True"
| "write_error (NotADirectoryError p) = True"
| "write_error UnicodeEncodeError = True"
| "write_error e = False"

text \<open>
  A Python \<open>dict\<close> has no repeated key: the values the program can hold are those whose
  objects, at every depth, have distinct keys.
\<close>

fun dict_keys_distinct :: "'f json \<Rightarrow> bool"
  and list_keys_distinct :: "'f json list \<Rightarrow> bool"
  and items_keys_distinct :: "(pystr \<times> 'f json) list \<Rightarrow> bool"
where
  "dict_keys_distinct (JList xs) = list_keys_distinct xs"
| "dict_keys_distinct (JDict kvs) = (distinct (map fst kvs) \<and> items_keys_distinct kvs)"
| "dict_keys_distinct JNull = True"
| "dict_keys_distinct (JBool b) = True"
| "dict_keys_distinct (JInt i) = True"
| "dict_keys_distinct (JFloat x) = True"
| "dict_keys_distinct (JStr s) = True"
| "list_keys_distinct [] = True"
| "list_keys_distinct (x # xs) = (dict_keys_distinct x \<and> list_keys_distinct xs)"
| "items_keys_distinct [] = True"
| "items_keys_distinct ((k, v) # kvs) = (dict_keys_distinct v \<and> items_keys_distinct kvs)"




subsection \<open>Stand-ins for the examples\<close>

text \<open>
  A service that answers every analysis request with \<open>analysis\<close>, every narration
  request with \<open>narration\<close> and every speech request with \<open>audio\<close>; a \<open>float\<close> with two
  values, written \<open>0.9\<close> and \<open>1e-05\<close>.
\<close>

definition answer :: "pystr \<Rightarrow> chat_response" where
  "answer t = ChatResponse [Choice (Some (Message (Some t)))]"

definition stub_platform :: "chat_response \<Rightarrow> chat_response \<Rightarrow> bytes \<Rightarrow> bool platform" where
  "stub_platform analysis narration audio =
     \<lparr>float_of = (\<lambda>s. s = asc ''0.9''),
      floatstr = (\<lambda>b. if b then asc ''0.9'' else asc ''1e-05''),
      unicode_lower = (\<lambda>c. [c]),
      torn_dump = (\<lambda>t. []),
      chat_completions_create = (\<lambda>r. Inr (if cr_json_object r then analysis else narration)),
      audio_speech_create = (\<lambda>r. Inr audio)\<rparr>"

definition bare_world :: world where
  "bare_world = \<lparr>environ = Map.empty, files = Map.empty, net = [], out = [], err = []\<rparr>"

definition ready_world :: world where
  "ready_world =
     \<lparr>environ = [''OPENAI_API_KEY'' \<mapsto> asc ''sk-test'', ''OPENAI_MODEL'' \<mapsto> asc ''gpt-4.1''],
      files = [asc ''stamp.PNG'' \<mapsto> File [137, 80, 78, 71]],
      net = [], out = [], err = []\<rparr>"

text \<open>
  A world for the narration tool: the configuration with an audio format, and a
  result file holding \<open>{}\<close>.
\<close>

definition voice_world :: "pystr \<Rightarrow> world" where
  "voice_world fmt =
     \<lparr>environ = [''OPENAI_API_KEY'' \<mapsto> asc ''sk-test'', ''OPENAI_MODEL'' \<mapsto> asc ''gpt-4.1'',
                 ''OPENAI_TTS_FORMAT'' \<mapsto> fmt],
      files = [asc ''result.json'' \<mapsto> File [123, 125]],
      net = [], out = [], err = []\<rparr>"



section \<open>Facts about the stand-ins\<close>

lemmas path_eval = image_ext_def Path_def path_suffix_def path_name_def root_of_def asc_def
  py_lower_def ascii_lower_def mime_types_def path_str_def path_join_def path_parent_def

lemma ext_eval:
  "image_ext U (asc ''scans/Stamp.JPG'') = asc ''.jpg''"
  "image_ext U (asc ''a.b/stamp.Jpeg'') = asc ''.jpeg''"
  "image_ext U (asc ''stamp.PNG'') = asc ''.png''"
  "image_ext U (asc ''/tmp/x.tar.GIF'') = asc ''.gif''"
  "image_ext U (asc ''stamp.WebP'') = asc ''.webp''"
  "image_ext U (asc ''stamp.bmp'') = asc ''.bmp''"
  "image_ext U (asc ''.png'') = []"
  by (simp_all add: path_eval)

lemma ready_env:
  "environ ready_world ''OPENAI_API_KEY'' = Some (asc ''sk-test'')"
  "environ ready_world ''OPENAI_MODEL'' = Some (asc ''gpt-4.1'')"
  "environ ready_world ''OPENAI_TTS_MODEL'' = None"
  "environ ready_world ''OPENAI_TTS_VOICE'' = None"
  "environ ready_world ''OPENAI_TTS_FORMAT'' = None"
  by (simp_all add: ready_world_def)

lemma asc_nonempty: "asc ''sk-test'' \<noteq> []" "asc ''gpt-4.1'' \<noteq> []"
  by (simp_all add: asc_def)

lemma ready_configured:
  "\<not> falsy (environ ready_world ''OPENAI_API_KEY'')"
  "\<not> falsy (environ ready_world ''OPENAI_MODEL'')"
  by (simp_all add: ready_env falsy_def asc_nonempty)

lemma bare_unconfigured:
  "falsy (environ bare_world ''OPENAI_API_KEY'') \<or> falsy (environ bare_world ''OPENAI_MODEL'')"
  by (simp add: falsy_def bare_world_def)

lemma ready_no_file:
  "\<not> path_exists ready_world (asc ''missing.png'')"
  "\<not> path_exists ready_world (asc ''missing.json'')"
  by (simp_all add: path_exists_def node_at_def ready_world_def asc_def)

lemma bare_no_file:
  "\<not> path_exists bare_world (asc ''missing.png'')"
  "\<not> path_exists bare_world (asc ''missing.json'')"
  by (simp_all add: path_exists_def node_at_def bare_world_def asc_def)

lemma ready_image: "read_bytes (asc ''stamp.PNG'') ready_world = Inr [137, 80, 78, 71]"
  by (simp add: read_bytes_def node_at_def ready_world_def asc_def)

section \<open>The MIME type\<close>

lemma py_lower_ascii:
  "\<forall>c \<in> set s. c < 128 \<Longrightarrow> py_lower U s = map ascii_lower s"
  unfolding py_lower_def by (induction s) simp_all

text \<open>
  C5. The extension is lower-cased before the lookup: \<open>.jpg\<close> and \<open>.jpeg\<close> give
  \<open>image/jpeg\<close>, \<open>.png\<close> gives \<open>image/png\<close>, \<open>.gif\<close> gives \<open>image/gif\<close>, \<open>.webp\<close> gives
  \<open>image/webp\<close>, and any extension that is not a key of the table gives \<open>image/jpeg\<close>;
  no case raises.
\<close>

theorem mime_type_by_extension:
  "(image_ext U p = asc ''.jpg'' \<or> image_ext U p = asc ''.jpeg'' \<longrightarrow>
      mime_type U p = asc ''image/jpeg'') \<and>
   (image_ext U p = asc ''.png'' \<longrightarrow> mime_type U p = asc ''image/png'') \<and>
   (image_ext U p = asc ''.gif'' \<longrightarrow> mime_type U p = asc ''image/gif'') \<and>
   (image_ext U p = asc ''.webp'' \<longrightarrow> mime_type U p = asc ''image/webp'') \<and>
   (image_ext U p \<notin> fst ` set mime_types \<longrightarrow> mime_type U p = asc ''image/jpeg'')"
  by (auto simp: mime_type_def mime_types_def asc_def split: option.splits dest!: map_of_SomeD)

theorem mime_type_by_extension_witness:
  "mime_type (\<lambda>c. [c]) (asc ''scans/Stamp.JPG'') = asc ''image/jpeg'' \<and>
   mime_type (\<lambda>c. [c]) (asc ''a.b/stamp.Jpeg'') = asc ''image/jpeg'' \<and>
   mime_type (\<lambda>c. [c]) (asc ''stamp.PNG'') = asc ''image/png'' \<and>
   mime_type (\<lambda>c. [c]) (asc ''/tmp/x.tar.GIF'') = asc ''image/gif'' \<and>
   mime_type (\<lambda>c. [c]) (asc ''stamp.WebP'') = asc ''image/webp'' \<and>
   mime_type (\<lambda>c. [c]) (asc ''stamp.bmp'') = asc ''image/jpeg'' \<and>
   mime_type (\<lambda>c. [c]) (asc ''.png'') = asc ''image/jpeg''"
  using mime_type_by_extension [of "\<lambda>c. [c]" "asc ''scans/Stamp.JPG''"]
    mime_type_by_extension [of "\<lambda>c. [c]" "asc ''a.b/stamp.Jpeg''"]
    mime_type_by_extension [of "\<lambda>c. [c]" "asc ''stamp.PNG''"]
    mime_type_by_extension [of "\<lambda>c. [c]" "asc ''/tmp/x.tar.GIF''"]
    mime_type_by_extension [of "\<lambda>c. [c]" "asc ''stamp.WebP''"]
    mime_type_by_extension [of "\<lambda>c. [c]" "asc ''stamp.bmp''"]
    mime_type_by_extension [of "\<lambda>c. [c]" "asc ''.png''"]
  unfolding ext_eval by (simp add: mime_types_def asc_def)

section \<open>The checks of \<open>analyze_stamp\<close>\<close>

text \<open>
  C4. When the API key or the model is unset or empty, \<open>analyze_stamp\<close> raises the
  \<open>ValueError\<close> for the missing value and leaves the world as it was: no request is
  recorded, no client was created.
\<close>

theorem analyze_stamp_missing_config:
  "falsy (environ w ''OPENAI_API_KEY'') \<or> falsy (environ w ''OPENAI_MODEL'') \<Longrightarrow>
   (analyze_stamp P image_path w = (Inl MissingApiKey, w) \<or>
    analyze_stamp P image_path w = (Inl MissingModel, w)) \<and>
   net (snd (analyze_stamp P image_path w)) = net w"
  by (auto simp: analyze_stamp_def Let_def)

theorem analyze_stamp_missing_config_witness:
  "(falsy (environ bare_world ''OPENAI_API_KEY'') \<or> falsy (environ bare_world ''OPENAI_MODEL'')) \<and>
   (analyze_stamp (stub_platform (answer []) (answer []) []) (asc ''stamp.PNG'') bare_world
      = (Inl MissingApiKey, bare_world) \<or>
    analyze_stamp (stub_platform (answer []) (answer []) []) (asc ''stamp.PNG'') bare_world
      = (Inl MissingModel, bare_world)) \<and>
   net (snd (analyze_stamp (stub_platform (answer []) (answer []) []) (asc ''stamp.PNG'')
     bare_world)) = net bare_world"
  using bare_unconfigured
    analyze_stamp_missing_config [OF bare_unconfigured,
      of "stub_platform (answer []) (answer []) []" "asc ''stamp.PNG''"]
  by blast

text \<open>
  C3, as the code has it. The configuration is checked before the file: when the API
  key and the model are both set, a path that does not exist makes \<open>analyze_stamp\<close>
  raise \<open>FileNotFoundError\<close> with the world unchanged, so before any request.
\<close>

theorem analyze_stamp_missing_image:
  "\<not> falsy (environ w ''OPENAI_API_KEY'') \<Longrightarrow> \<not> falsy (environ w ''OPENAI_MODEL'') \<Longrightarrow>
   \<not> path_exists w image_path \<Longrightarrow>
   analyze_stamp P image_path w = (Inl (ImageNotFound image_path), w)"
  by (simp add: analyze_stamp_def Let_def)

theorem analyze_stamp_missing_image_witness:
  "\<not> falsy (environ ready_world ''OPENAI_API_KEY'') \<and>
   \<not> falsy (environ ready_world ''OPENAI_MODEL'') \<and>
   \<not> path_exists ready_world (asc ''missing.png'') \<and>
   analyze_stamp (stub_platform (answer []) (answer []) []) (asc ''missing.png'') ready_world
     = (Inl (ImageNotFound (asc ''missing.png'')), ready_world)"
  using analyze_stamp_missing_image [OF ready_configured ready_no_file(1),
      of "stub_platform (answer []) (answer []) []"]
    ready_configured ready_no_file(1)
  by blast

text \<open>
  C3, as the claim states it, fails: with no API key in the environment, a path that
  does not exist gives the \<open>ValueError\<close> of the configuration check, which is not a
  \<open>FileNotFoundError\<close>.
\<close>

theorem analyze_stamp_file_check_counterexample:
  "\<not> path_exists bare_world (asc ''missing.png'') \<and>
   analyze_stamp (stub_platform (answer []) (answer []) []) (asc ''missing.png'') bare_world
     = (Inl MissingApiKey, bare_world) \<and>
   \<not> isinstance MissingApiKey C_FileNotFoundError"
  by (simp add: analyze_stamp_def falsy_def bare_world_def path_exists_def node_at_def
      isinstance_def asc_def)

section \<open>An empty response\<close>

lemma analyze_stamp_empty:
  assumes "\<not> falsy (environ w ''OPENAI_API_KEY'')" "\<not> falsy (environ w ''OPENAI_MODEL'')"
    and "read_bytes image_path w = Inr bs"
    and "chat_completions_create P
           (analyze_request (text_of (environ w ''OPENAI_API_KEY''))
              (text_of (environ w ''OPENAI_MODEL''))
              (mime_type (unicode_lower P) image_path) (b64encode bs)) = Inr r"
    and "empty_response r"
  shows "\<exists>e w'. analyze_stamp P image_path w = (Inl e, w') \<and>
           e \<in> {EmptyChoices, NoMessage, EmptyAnswer} \<and> files w' = files w \<and>
           out w' = out w \<and> err w' = err w"
proof -
  from assms(3) have ex: "path_exists w image_path"
    by (auto simp: read_bytes_def path_exists_def split: option.splits)
  from assms(3) have enc: "encode_image image_path w = Inr (b64encode bs)"
    by (simp add: encode_image_def)
  show ?thesis
    using assms(1,2,4,5) ex enc
    by (auto simp: analyze_stamp_def Let_def empty_response_def split: list.splits option.splits)
qed

lemma isinstance_simps:
  "isinstance MissingApiKey C_ValueError" "\<not> isinstance MissingApiKey C_FileNotFoundError"
  "isinstance EmptyChoices C_ValueError" "\<not> isinstance EmptyChoices C_FileNotFoundError"
  "isinstance NoMessage C_ValueError" "\<not> isinstance NoMessage C_FileNotFoundError"
  "isinstance EmptyAnswer C_ValueError" "\<not> isinstance EmptyAnswer C_FileNotFoundError"
  "isinstance JSONDecodeError C_ValueError" "\<not> isinstance JSONDecodeError C_FileNotFoundError"
  by (simp_all add: isinstance_def)

text \<open>
  C7. When the request is sent (key and model set, image readable) and the service
  answers with no choice, with a first choice without message or with an empty
  content, \<open>analyze_stamp\<close> raises the \<open>ValueError\<close> for the empty response, and the
  run of \<open>main\<close> ends with status 1 and every file as it was.
\<close>

theorem main_empty_response:
  assumes "\<not> falsy (environ w ''OPENAI_API_KEY'')" "\<not> falsy (environ w ''OPENAI_MODEL'')"
    and "read_bytes image_path w = Inr bs"
    and "chat_completions_create P
           (analyze_request (text_of (environ w ''OPENAI_API_KEY''))
              (text_of (environ w ''OPENAI_MODEL''))
              (mime_type (unicode_lower P) image_path) (b64encode bs)) = Inr r"
    and "empty_response r"
  shows "(\<exists>e w'. analyze_stamp P image_path w = (Inl e, w') \<and>
            e \<in> {EmptyChoices, NoMessage, EmptyAnswer} \<and> files w' = files w) \<and>
         fst (main P image_path tts w) = 1 \<and>
         files (snd (main P image_path tts w)) = files w"
proof -
  let ?w = "print_out [Analyzing image_path] w"
  have a: "\<not> falsy (environ ?w ''OPENAI_API_KEY'')" "\<not> falsy (environ ?w ''OPENAI_MODEL'')"
    using assms(1-2) by (simp_all add: print_out_def)
  have "read_bytes image_path ?w = read_bytes image_path w"
    by (simp add: print_out_def read_bytes_def node_at_def)
  with assms(3) have a3: "read_bytes image_path ?w = Inr bs" by simp
  have b: "chat_completions_create P
           (analyze_request (text_of (environ ?w ''OPENAI_API_KEY''))
              (text_of (environ ?w ''OPENAI_MODEL''))
              (mime_type (unicode_lower P) image_path) (b64encode bs)) = Inr r"
    using assms(4) by (simp add: print_out_def)
  from analyze_stamp_empty[OF a a3 b assms(5)] obtain e w' where
    e: "analyze_stamp P image_path ?w = (Inl e, w')" "e \<in> {EmptyChoices, NoMessage, EmptyAnswer}"
       "files w' = files ?w" by blast
  have "main P image_path tts w = (1, print_err [ConfigErrorMsg e] w')"
    using e(1,2) by (auto simp: main_def main_handlers_def isinstance_simps)
  with e(3) have "fst (main P image_path tts w) = 1 \<and> files (snd (main P image_path tts w)) = files w"
    by (simp add: print_err_def print_out_def)
  with analyze_stamp_empty[OF assms] show ?thesis by blast
qed

theorem main_empty_response_witness:
  "(\<exists>e w'. analyze_stamp (stub_platform (ChatResponse []) (answer []) []) (asc ''stamp.PNG'')
              ready_world = (Inl e, w') \<and>
            e \<in> {EmptyChoices, NoMessage, EmptyAnswer} \<and> files w' = files ready_world) \<and>
   fst (main (stub_platform (ChatResponse []) (answer []) []) (asc ''stamp.PNG'') True
          ready_world) = 1 \<and>
   files (snd (main (stub_platform (ChatResponse []) (answer []) []) (asc ''stamp.PNG'') True
          ready_world)) = files ready_world"
proof -
  let ?P = "stub_platform (ChatResponse []) (answer []) []"
  have c: "chat_completions_create ?P
             (analyze_request (text_of (environ ready_world ''OPENAI_API_KEY''))
                (text_of (environ ready_world ''OPENAI_MODEL''))
                (mime_type (unicode_lower ?P) (asc ''stamp.PNG'')) (b64encode [137, 80, 78, 71]))
           = Inr (ChatResponse [])"
    by (simp add: stub_platform_def analyze_request_def)
  have e: "empty_response (ChatResponse [])"
    by (simp add: empty_response_def)
  show ?thesis
    by (rule main_empty_response [OF ready_configured ready_image c e])
qed

section \<open>The order of the checks in \<open>json_to_voice\<close>\<close>

lemma json_to_voice_no_file:
  "\<not> falsy (environ w ''OPENAI_API_KEY'') \<Longrightarrow> \<not> falsy (environ w ''OPENAI_MODEL'') \<Longrightarrow>
   \<not> path_exists w json_path \<Longrightarrow>
   json_to_voice P json_path od w = (Inl (JsonFileNotFound json_path), w)"
  by (simp add: json_to_voice_def Let_def load_json_result_def)

text \<open>
  C10. \<open>json_to_voice\<close> checks the configuration before it looks at \<open>json_path\<close>: when
  the API key or the model is unset or empty it raises the \<open>ValueError\<close> for the
  missing value, whether the file exists or not, and the world is unchanged; and
  whenever it raises a \<open>FileNotFoundError\<close>, both values are set.
\<close>

theorem json_to_voice_config_first:
  "(falsy (environ w ''OPENAI_API_KEY'') \<or> falsy (environ w ''OPENAI_MODEL'') \<longrightarrow>
      json_to_voice P json_path od w = (Inl MissingApiKey, w) \<or>
      json_to_voice P json_path od w = (Inl MissingModel, w)) \<and>
   (\<forall>e. fst (json_to_voice P json_path od w) = Inl e \<and> isinstance e C_FileNotFoundError \<longrightarrow>
      \<not> falsy (environ w ''OPENAI_API_KEY'') \<and> \<not> falsy (environ w ''OPENAI_MODEL''))"
  by (auto simp: json_to_voice_def Let_def isinstance_def)

theorem json_to_voice_config_first_witness:
  "(falsy (environ bare_world ''OPENAI_API_KEY'') \<or> falsy (environ bare_world ''OPENAI_MODEL'')) \<and>
   \<not> path_exists bare_world (asc ''missing.json'') \<and>
   (json_to_voice (stub_platform (answer []) (answer []) []) (asc ''missing.json'') (asc ''output'')
      bare_world = (Inl MissingApiKey, bare_world) \<or>
    json_to_voice (stub_platform (answer []) (answer []) []) (asc ''missing.json'') (asc ''output'')
      bare_world = (Inl MissingModel, bare_world)) \<and>
   fst (json_to_voice (stub_platform (answer []) (answer []) []) (asc ''missing.json'')
      (asc ''output'') ready_world) = Inl (JsonFileNotFound (asc ''missing.json'')) \<and>
   isinstance (JsonFileNotFound (asc ''missing.json'')) C_FileNotFoundError \<and>
   \<not> falsy (environ ready_world ''OPENAI_API_KEY'') \<and>
   \<not> falsy (environ ready_world ''OPENAI_MODEL'')"
proof -
  let ?P = "stub_platform (answer []) (answer []) []"
  have f: "fst (json_to_voice ?P (asc ''missing.json'') (asc ''output'') ready_world)
             = Inl (JsonFileNotFound (asc ''missing.json''))"
    by (simp add: json_to_voice_no_file [OF ready_configured ready_no_file(2)])
  have i: "isinstance (JsonFileNotFound (asc ''missing.json'')) C_FileNotFoundError"
    by (simp add: isinstance_def)
  show ?thesis
    using bare_unconfigured bare_no_file(2) f i
      json_to_voice_config_first [of bare_world ?P "asc ''missing.json''" "asc ''output''"]
      json_to_voice_config_first [of ready_world ?P "asc ''missing.json''" "asc ''output''"]
    by blast
qed

section \<open>An answer that is not JSON\<close>

lemmas scan_num =
  scan_once.simps(2) [of _ "pred_numeral k" for k, folded numeral_eq_Suc]
  members.simps(2) [of _ "pred_numeral k" for k, folded numeral_eq_Suc]
  elements.simps(2) [of _ "pred_numeral k" for k, folded numeral_eq_Suc]

lemmas loads_eval = json_loads_def asc_def skip_ws_def is_ws_def scan_num match_number_def
  match_int_def match_frac_def match_exp_def is_digit_def

lemma loads_not_json: "json_loads ff (asc ''not json'') = None"
  by (simp add: loads_eval)

lemma print_simps:
  "environ (print_out ms w) = environ w" "files (print_out ms w) = files w"
  "net (print_out ms w) = net w" "err (print_out ms w) = err w"
  "out (print_out ms w) = out w @ ms"
  "environ (print_err ms w) = environ w" "files (print_err ms w) = files w"
  "net (print_err ms w) = net w" "out (print_err ms w) = out w"
  "err (print_err ms w) = err w @ ms"
  "read_bytes p (print_out ms w) = read_bytes p w"
  "path_exists (print_out ms w) p = path_exists w p"
  by (simp_all add: print_out_def print_err_def read_bytes_def node_at_def path_exists_def)

lemma analyze_stamp_answer:
  assumes "\<not> falsy (environ w ''OPENAI_API_KEY'')" "\<not> falsy (environ w ''OPENAI_MODEL'')"
    and "read_bytes image_path w = Inr bs"
    and "chat_completions_create P
           (analyze_request (text_of (environ w ''OPENAI_API_KEY''))
              (text_of (environ w ''OPENAI_MODEL''))
              (mime_type (unicode_lower P) image_path) (b64encode bs)) = Inr (answer t)"
    and "t \<noteq> []"
  shows "analyze_stamp P image_path w =
           (Inr t, w\<lparr>net := net w @ [ChatCall
              (analyze_request (text_of (environ w ''OPENAI_API_KEY''))
                (text_of (environ w ''OPENAI_MODEL''))
                (mime_type (unicode_lower P) image_path) (b64encode bs))]\<rparr>)"
proof -
  from assms(3) have ex: "path_exists w image_path"
    by (auto simp: read_bytes_def path_exists_def split: option.splits)
  from assms(3) have enc: "encode_image image_path w = Inr (b64encode bs)"
    by (simp add: encode_image_def)
  show ?thesis
    using assms(1,2,4,5) ex enc
    by (simp add: analyze_stamp_def Let_def answer_def falsy_def text_of_def)
qed

lemma main_malformed:
  "analyze_stamp P image_path (print_out [Analyzing image_path] w) = (Inr result, w1) \<Longrightarrow>
   json_loads (float_of P) result = None \<Longrightarrow>
   main P image_path tts w = (1, print_err [ConfigErrorMsg JSONDecodeError] w1)"
  by (simp add: main_def main_handlers_def isinstance_def)

lemma stub_chat:
  "chat_completions_create (stub_platform a n au) (analyze_request k m mt im) = Inr a"
  "chat_completions_create (stub_platform a n au) (voice_request k m d) = Inr n"
  "audio_speech_create (stub_platform a n au) r = Inr au"
  by (simp_all add: stub_platform_def analyze_request_def voice_request_def)

lemma ready_analysis:
  assumes "t \<noteq> []"
  shows "\<exists>w1. analyze_stamp (stub_platform (answer t) n au) (asc ''stamp.PNG'')
           (print_out [Analyzing (asc ''stamp.PNG'')] ready_world) = (Inr t, w1) \<and>
         files w1 = files ready_world \<and> err w1 = [] \<and> environ w1 = environ ready_world"
proof -
  let ?w = "print_out [Analyzing (asc ''stamp.PNG'')] ready_world"
  have a: "\<not> falsy (environ ?w ''OPENAI_API_KEY'')" "\<not> falsy (environ ?w ''OPENAI_MODEL'')"
    using ready_configured by (simp_all add: print_simps)
  have b: "read_bytes (asc ''stamp.PNG'') ?w = Inr [137, 80, 78, 71]"
    by (simp add: print_simps ready_image)
  show ?thesis
    by (simp add: analyze_stamp_answer [OF a b stub_chat(1) assms] print_simps)
      (simp add: ready_world_def)
qed

text \<open>
  C1. The service answers the analysis request with the text \<open>not json\<close>. \<open>json.loads\<close>
  raises \<open>JSONDecodeError\<close>, the run ends with status 1 and no file is written; but the
  exception is a \<open>ValueError\<close>, so the clause of line 238 catches it: the error stream
  holds the line of line 239 with the message of the exception, and the clause of
  lines 241 to 244, which would print the answer of the model, is never reached.
\<close>

theorem main_non_json_answer:
  "fst (main (stub_platform (answer (asc ''not json'')) (answer []) []) (asc ''stamp.PNG'') False
          ready_world) = 1 \<and>
   err (snd (main (stub_platform (answer (asc ''not json'')) (answer []) []) (asc ''stamp.PNG'')
          False ready_world)) = [ConfigErrorMsg JSONDecodeError] \<and>
   files (snd (main (stub_platform (answer (asc ''not json'')) (answer []) []) (asc ''stamp.PNG'')
          False ready_world)) = files ready_world"
proof -
  have ne: "asc ''not json'' \<noteq> []" by (simp add: asc_def)
  from ready_analysis [OF ne, of "answer []" "[]"] obtain w1 where
    w1: "analyze_stamp (stub_platform (answer (asc ''not json'')) (answer []) []) (asc ''stamp.PNG'')
           (print_out [Analyzing (asc ''stamp.PNG'')] ready_world) = (Inr (asc ''not json''), w1)"
      "files w1 = files ready_world" "err w1 = []" by blast
  show ?thesis
    by (simp add: main_malformed [OF w1(1) loads_not_json] print_simps w1)
qed

section \<open>What each step of \<open>json_to_voice\<close> can change\<close>


lemma generate_voice_script_frame:
  "generate_voice_script P sd k m w = (r, w') \<Longrightarrow>
   files w' = files w \<and> environ w' = environ w \<and> out w' = out w \<and> err w' = err w"
  by (auto simp: generate_voice_script_def Let_def
      split: if_splits sum.splits list.splits option.splits)

lemma generate_audio_frame:
  "generate_audio P vs k tm tv fmt w = (r, w') \<Longrightarrow>
   files w' = files w \<and> environ w' = environ w \<and> out w' = out w \<and> err w' = err w"
  by (auto simp: generate_audio_def Let_def split: if_splits sum.splits)

lemma mkdir_frame:
  "mkdir p w = Inr w' \<Longrightarrow>
   environ w' = environ w \<and> out w' = out w \<and> err w' = err w \<and> net w' = net w \<and>
   (\<forall>q. q \<noteq> path_str p \<longrightarrow> files w' q = files w q)"
  by (auto simp: mkdir_def split: option.splits node.splits)

lemma open_w_error: "open_w p w = Inl e \<Longrightarrow> write_error e"
  by (auto simp: open_w_def split: option.splits node.splits)

lemma put_file_simps:
  "environ (put_file p bs w) = environ w" "out (put_file p bs w) = out w"
  "err (put_file p bs w) = err w" "net (put_file p bs w) = net w"
  "files (put_file p bs w) = (files w)(path_str p \<mapsto> File bs)"
  by (simp_all add: put_file_def)

lemma write_text_frame:
  "write_text p t w = (r, w') \<Longrightarrow>
   environ w' = environ w \<and> out w' = out w \<and> err w' = err w \<and> net w' = net w \<and>
   (\<forall>q. q \<noteq> path_str p \<longrightarrow> files w' q = files w q) \<and>
   (\<forall>e. r = Inl e \<longrightarrow> write_error e)"
  by (auto simp: write_text_def put_file_simps dest: open_w_error split: sum.splits option.splits)

lemma write_bytes_frame:
  "write_bytes p bs w = (r, w') \<Longrightarrow>
   environ w' = environ w \<and> out w' = out w \<and> err w' = err w \<and> net w' = net w \<and>
   (\<forall>q. q \<noteq> path_str p \<longrightarrow> files w' q = files w q) \<and>
   (\<forall>e. r = Inl e \<longrightarrow> write_error e \<and> w' = w) \<and>
   (r = Inr () \<longrightarrow> files w' (path_str p) = Some (File bs))"
  by (auto simp: write_bytes_def put_file_simps dest: open_w_error split: sum.splits)



lemma generate_audio_sent:
  "generate_audio P vs k tm tv fmt w = (Inr audio, w') \<Longrightarrow>
   \<exists>req. SpeechCall req \<in> set (net w') \<and> sr_response_format req = fmt \<and>
         audio_speech_create P req = Inr audio"
  by (auto simp: generate_audio_def Let_def split: if_splits sum.splits)




lemma json_to_voice_success:
  assumes "json_to_voice P jp od w = (Inr (sf, af), w')"
  shows "environ w' = environ w \<and> out w' = out w \<and> err w' = err w \<and>
         sf = path_str (script_path od) \<and> af = path_str (audio_path od (tts_format_of w)) \<and>
         (\<forall>q. q \<noteq> path_str (Path od) \<and> q \<noteq> sf \<and> q \<noteq> af \<longrightarrow> files w' q = files w q) \<and>
         (\<exists>req audio. SpeechCall req \<in> set (net w') \<and>
            sr_response_format req = tts_format_of w \<and>
            audio_speech_create P req = Inr audio \<and> files w' af = Some (File audio))"
  using assms
  apply (simp add: json_to_voice_def Let_def script_path_def audio_path_def tts_format_of_def
      split: if_splits sum.splits prod.splits)
  apply (elim conjE exE)
  apply (frule generate_voice_script_frame)
  apply (frule generate_audio_frame)
  apply (frule generate_audio_sent)
  apply (frule mkdir_frame)
  apply (frule write_text_frame)
  apply (frule write_bytes_frame)
  apply (auto)
  done

section \<open>The audio file\<close>


lemmas voice_eval = json_to_voice_def load_json_result_def read_text_def read_bytes_def
  node_at_def path_exists_def falsy_def getenv_default_def text_of_def voice_world_def
  stub_platform_def answer_def generate_voice_script_def generate_audio_def voice_request_def
  json_dumps_def is_cont_def utf8_char_def mkdir_def write_text_def write_bytes_def open_w_def
  put_file_def py_strip_def py_isspace_def Let_def

lemma voice_run_mp3_slash:
  "fst (json_to_voice (stub_platform (answer []) (answer (asc ''Hello'')) [73, 68, 51])
      (asc ''result.json'') (asc ''output'') (voice_world (asc ''mp3/'')))
   = Inr (asc ''output/voice_script.txt'', asc ''output/result.mp3'')"
  by (simp add: voice_eval loads_eval path_eval)



lemma split_slash_no_slash: "47 \<notin> set s \<Longrightarrow> split_slash s = [s]"
  by (induction s) auto

lemma audio_path_no_slash:
  assumes "47 \<notin> set fmt"
  shows "path_name (audio_path od fmt) = asc ''result.'' @ fmt"
    and "path_parent (audio_path od fmt) = Path od"
proof -
  have ns: "47 \<notin> set (asc ''result.'' @ fmt)"
    using assms by (simp add: asc_def)
  have p: "Path (asc ''result.'' @ fmt) = PPath [] [asc ''result.'' @ fmt]"
    by (simp add: Path_def split_slash_no_slash [OF ns]) (simp add: root_of_def asc_def)
  have j: "audio_path od fmt = PPath (root (Path od)) (parts (Path od) @ [asc ''result.'' @ fmt])"
    by (simp add: audio_path_def path_join_def p) (simp add: asc_def)
  show "path_name (audio_path od fmt) = asc ''result.'' @ fmt"
    by (simp add: j path_name_def)
  show "path_parent (audio_path od fmt) = Path od"
    by (simp add: j path_parent_def)
qed

text \<open>
  C9, as the code has it. \<open>json_to_voice\<close> does not check the audio format. Whenever it
  returns, and the configured format holds no \<open>/\<close>, the audio path it returns is the
  file \<open>result.<format>\<close> in the output directory, the format was passed to the speech
  request as it is, and the file holds the bytes the service answered; an unset
  variable gives \<open>mp3\<close>.
\<close>

theorem json_to_voice_audio_file:
  assumes "json_to_voice P jp od w = (Inr (sf, af), w')"
    and "47 \<notin> set (tts_format_of w)"
  shows "af = path_str (audio_path od (tts_format_of w)) \<and>
         path_name (audio_path od (tts_format_of w)) = asc ''result.'' @ tts_format_of w \<and>
         path_parent (audio_path od (tts_format_of w)) = Path od \<and>
         (\<exists>req audio. SpeechCall req \<in> set (net w') \<and>
            sr_response_format req = tts_format_of w \<and>
            audio_speech_create P req = Inr audio \<and> files w' af = Some (File audio)) \<and>
         (environ w ''OPENAI_TTS_FORMAT'' = None \<longrightarrow> tts_format_of w = asc ''mp3'')"
proof -
  have d: "environ w ''OPENAI_TTS_FORMAT'' = None \<longrightarrow> tts_format_of w = asc ''mp3''"
    by (simp add: tts_format_of_def getenv_default_def text_of_def)
  show ?thesis
    using json_to_voice_success [OF assms(1)] audio_path_no_slash [OF assms(2), of od] d
    by blast
qed

lemma voice_run_xyz:
  "json_to_voice (stub_platform (answer []) (answer (asc ''Hello'')) [73, 68, 51])
      (asc ''result.json'') (asc ''output'') (voice_world (asc ''xyz''))
   = (Inr (asc ''output/voice_script.txt'', asc ''output/result.xyz''),
      snd (json_to_voice (stub_platform (answer []) (answer (asc ''Hello'')) [73, 68, 51])
      (asc ''result.json'') (asc ''output'') (voice_world (asc ''xyz''))))"
  by (simp add: voice_eval loads_eval path_eval)

lemma voice_run_default:
  "json_to_voice (stub_platform (answer []) (answer (asc ''Hello'')) [73, 68, 51])
      (asc ''result.json'') (asc ''output'')
      ((voice_world [])\<lparr>environ := (environ (voice_world []))(''OPENAI_TTS_FORMAT'' := None)\<rparr>)
   = (Inr (asc ''output/voice_script.txt'', asc ''output/result.mp3''),
      snd (json_to_voice (stub_platform (answer []) (answer (asc ''Hello'')) [73, 68, 51])
      (asc ''result.json'') (asc ''output'')
      ((voice_world [])\<lparr>environ := (environ (voice_world []))(''OPENAI_TTS_FORMAT'' := None)\<rparr>)))"
  by (simp add: voice_eval loads_eval path_eval)

theorem json_to_voice_audio_file_witness:
  "47 \<notin> set (tts_format_of (voice_world (asc ''xyz''))) \<and>
   tts_format_of (voice_world (asc ''xyz'')) = asc ''xyz'' \<and>
   fst (json_to_voice (stub_platform (answer []) (answer (asc ''Hello'')) [73, 68, 51])
      (asc ''result.json'') (asc ''output'') (voice_world (asc ''xyz'')))
     = Inr (asc ''output/voice_script.txt'', asc ''output/result.xyz'') \<and>
   path_name (audio_path (asc ''output'') (asc ''xyz'')) = asc ''result.xyz'' \<and>
   files (snd (json_to_voice (stub_platform (answer []) (answer (asc ''Hello'')) [73, 68, 51])
      (asc ''result.json'') (asc ''output'') (voice_world (asc ''xyz''))))
     (asc ''output/result.xyz'') = Some (File [73, 68, 51]) \<and>
   tts_format_of ((voice_world [])\<lparr>environ :=
      (environ (voice_world []))(''OPENAI_TTS_FORMAT'' := None)\<rparr>) = asc ''mp3''"
proof -
  let ?P = "stub_platform (answer []) (answer (asc ''Hello'')) [73, 68, 51]"
  let ?w0 = "(voice_world [])\<lparr>environ := (environ (voice_world []))(''OPENAI_TTS_FORMAT'' := None)\<rparr>"
  have f: "tts_format_of (voice_world (asc ''xyz'')) = asc ''xyz''"
    by (simp add: tts_format_of_def getenv_default_def text_of_def voice_world_def)
  have n: "47 \<notin> set (tts_format_of (voice_world (asc ''xyz'')))"
    by (simp add: f) (simp add: asc_def)
  have n0: "47 \<notin> set (tts_format_of ?w0)"
    by (simp add: tts_format_of_def getenv_default_def text_of_def voice_world_def asc_def)
  have e0: "environ ?w0 ''OPENAI_TTS_FORMAT'' = None" by simp
  have s: "audio_speech_create ?P req = Inr [73, 68, 51]" for req
    by (simp add: stub_platform_def)
  let ?w' = "snd (json_to_voice ?P (asc ''result.json'') (asc ''output'') (voice_world (asc ''xyz'')))"
  note t = json_to_voice_audio_file [OF voice_run_xyz n]
  from t obtain req audio where
    "audio_speech_create ?P req = Inr audio"
    "files ?w' (asc ''output/result.xyz'') = Some (File audio)" by blast
  with s have fl: "files ?w' (asc ''output/result.xyz'') = Some (File [73, 68, 51])" by simp
  from t have pn: "path_name (audio_path (asc ''output'') (asc ''xyz'')) = asc ''result.xyz''"
    by (simp add: f) (simp add: asc_def)
  from json_to_voice_audio_file [OF voice_run_default n0] e0
  have d: "tts_format_of ?w0 = asc ''mp3''" by blast
  have r: "fst (json_to_voice ?P (asc ''result.json'') (asc ''output'') (voice_world (asc ''xyz'')))
             = Inr (asc ''output/voice_script.txt'', asc ''output/result.xyz'')"
    by (subst voice_run_xyz) simp
  show ?thesis
    using n f r fl pn d by blast
qed

text \<open>
  C9, as the claim states it, fails for a format with a \<open>/\<close>, which \<open>pathlib\<close> reads as a
  separator: with the format \<open>mp3/\<close> the audio goes to \<open>output/result.mp3\<close>, and no file
  is named \<open>result.mp3/\<close>.
\<close>

theorem json_to_voice_audio_file_counterexample:
  "fst (json_to_voice (stub_platform (answer []) (answer (asc ''Hello'')) [73, 68, 51])
      (asc ''result.json'') (asc ''output'') (voice_world (asc ''mp3/'')))
     = Inr (asc ''output/voice_script.txt'', asc ''output/result.mp3'') \<and>
   asc ''output/result.mp3'' \<noteq> asc ''output/result.'' @ asc ''mp3/'' \<and>
   path_name (audio_path (asc ''output'') (asc ''mp3/'')) \<noteq> asc ''result.'' @ asc ''mp3/''"
  by (simp add: voice_run_mp3_slash) (simp add: path_eval audio_path_def)

section \<open>The outcomes of \<open>main\<close>\<close>










section \<open>The result file\<close>























section \<open>A narration that fails\<close>











section \<open>Reading the result file back\<close>

subsection \<open>UTF-8\<close>

lemma b3: "(c::nat) < 65536 \<Longrightarrow> c div 4096 < 16" by (simp add: div_less_iff_less_mult)
lemma b2: "(c::nat) < 2048 \<Longrightarrow> c div 64 < 32" by (simp add: div_less_iff_less_mult)
lemma l2: "128 \<le> (c::nat) \<Longrightarrow> 2 \<le> c div 64" by (simp add: less_eq_div_iff_mult_less_eq)






subsection \<open>Integers\<close>















subsection \<open>Strings\<close>






lemma scanstring_basestring:
  "encode_basestring s @ rest = 34 # concat (map escape_char s) @ 34 # rest"
  by (simp add: encode_basestring_def)



subsection \<open>Floats\<close>







lemma no_cr_digits: "13 \<notin> set (takeWhile is_digit s)"
  by (auto dest!: set_takeWhileD simp: is_digit_def)

lemma match_int_parts:
  assumes "match_int s = Some (i, r)"
  shows "s = i @ r \<and> 13 \<notin> set i \<and> (\<exists>d t. i = d # t \<and> (d = 45 \<or> is_digit d))"
proof (cases s)
  case Nil
  with assms show ?thesis by (simp add: match_int_def)
next
  case s: (Cons c t)
  show ?thesis
  proof (cases t)
    case Nil
    with s assms show ?thesis
      by (auto simp: match_int_def is_digit_def split: if_splits)
  next
    case (Cons d u)
    with s assms no_cr_digits [of u] no_cr_digits [of t] show ?thesis
      by (auto simp: match_int_def is_digit_def split: if_splits)
  qed
qed

lemma match_frac_parts: "match_frac s = (f, r) \<Longrightarrow> s = f @ r \<and> 13 \<notin> set f"
  using no_cr_digits [of "tl s"]
  by (cases s) (auto simp: match_frac_def split: if_splits)

lemma match_exp_parts:
  assumes "match_exp s = (e, r)"
  shows "s = e @ r \<and> 13 \<notin> set e"
proof (cases s)
  case Nil
  with assms show ?thesis by (simp add: match_exp_def)
next
  case s: (Cons c t)
  show ?thesis
  proof (cases t)
    case Nil
    with s assms show ?thesis by (auto simp: match_exp_def split: if_splits)
  next
    case (Cons g u)
    with s assms no_cr_digits [of u] no_cr_digits [of t] show ?thesis
      by (auto simp: match_exp_def split: if_splits)
  qed
qed

lemma match_number_parts:
  assumes "match_number s = Some (i, f, e, r)"
  shows "s = i @ f @ e @ r \<and> 13 \<notin> set (i @ f @ e) \<and>
         (\<exists>d t. i = d # t \<and> (d = 45 \<or> is_digit d))"
proof -
  from assms obtain r1 r2 where
    a: "match_int s = Some (i, r1)" and b: "match_frac r1 = (f, r2)" and c: "match_exp r2 = (e, r)"
    by (auto simp: match_number_def split: option.splits prod.splits)
  show ?thesis
    using match_int_parts [OF a] match_frac_parts [OF b] match_exp_parts [OF c] by auto
qed




subsection \<open>Scanning what was written\<close>

















declare scan_once.simps [simp del] members.simps [simp del] elements.simps [simp del]









subsection \<open>The file\<close>









section \<open>The scanner always has calls left\<close>


lemma consc_Some: "consc c x = Some (str, r) \<Longrightarrow> \<exists>str'. x = Some (str', r)"
  by (cases x) (auto simp: consc_def)

lemma scanstring_length: "scanstring s = Some (str, r) \<Longrightarrow> length r < length s"
proof (induction s arbitrary: str rule: length_induct)
  case (1 s)
  note IH = "1.IH" [rule_format]
  show ?case
  proof (cases s)
    case Nil
    with "1.prems" show ?thesis by simp
  next
    case (Cons c t)
    have rec: "length r < length u"
      if "scanstring u = Some (str', r)" "length u \<le> length t" for u str'
      using IH [OF _ that(1)] that(2) by (simp add: Cons)
    have l: "length (drop k x) \<le> length x" for k and x :: pystr by simp
    show ?thesis
      using "1.prems" unfolding Cons scanstring.simps
      by (auto split: if_splits list.splits option.splits dest!: consc_Some
          dest!: rec simp: le_Suc_eq)
  qed
qed



lemma skip_ws_le: "length (skip_ws t) \<le> length t"
  by (simp add: skip_ws_def length_dropWhile_le)

lemma skip_ws_Cons: "skip_ws t = d # r \<Longrightarrow> length r < length t"
  using skip_ws_le [of t] by simp

lemma match_number_length: "match_number s = Some (i, f, e, r) \<Longrightarrow> length r < length s"
  using match_number_parts [of s i f e r] by auto

lemma scan_once_length:
  assumes m: "\<And>s p r. members ff n s = Scanned p r \<Longrightarrow> length r < length s"
    and e: "\<And>s vs r. elements ff n s = Scanned vs r \<Longrightarrow> length r < length s"
    and s: "scan_once ff (Suc n) s = Scanned v r"
  shows "length r < length s"
proof (cases s)
  case Nil
  with s show ?thesis by (simp add: scan_once.simps)
next
  case (Cons c t)
  consider "c = 34" | "c = 123" | "c = 91" | "c \<noteq> 34" "c \<noteq> 123" "c \<noteq> 91" by blast
  then show ?thesis
  proof cases
    case 1
    with s Cons show ?thesis
      by (auto simp: scan_once.simps split: option.splits dest!: scanstring_length)
  next
    case 2
    with s Cons show ?thesis
      by (auto simp: scan_once.simps split: list.splits if_splits scan.splits
          dest!: skip_ws_Cons m)
  next
    case 3
    with s Cons show ?thesis
      by (auto simp: scan_once.simps split: list.splits if_splits scan.splits
          dest!: skip_ws_Cons e)
  next
    case 4
    with s Cons show ?thesis
      by (auto simp: scan_once.simps split: if_splits option.splits
          dest!: match_number_length)
  qed
qed

lemma members_length:
  assumes so: "\<And>s v r. scan_once ff n s = Scanned v r \<Longrightarrow> length r < length s"
    and m: "\<And>s p r. members ff n s = Scanned p r \<Longrightarrow> length r < length s"
    and s: "members ff (Suc n) s = Scanned p r"
  shows "length r < length s"
proof -
  from s obtain key r1 where k: "scanstring s = Some (key, r1)"
    by (auto simp: members.simps split: option.splits)
  from s k obtain r2 where r2: "skip_ws r1 = 58 # r2"
    by (auto simp: members.simps split: list.splits if_splits)
  from s k r2 obtain v r3 where v: "scan_once ff n (skip_ws r2) = Scanned v r3"
    by (auto simp: members.simps split: scan.splits)
  from s k r2 v obtain d r4 where r4: "skip_ws r3 = d # r4"
    by (auto simp: members.simps split: list.splits)
  have l: "length r4 < length s"
    using scanstring_length [OF k] skip_ws_Cons [OF r2] skip_ws_le [of r2] so [OF v]
      skip_ws_Cons [OF r4] by simp
  show ?thesis
  proof (cases "d = 125")
    case True
    with s k r2 v r4 l show ?thesis by (simp add: members.simps)
  next
    case False
    with s k r2 v r4 obtain r5 where r5: "skip_ws r4 = 34 # r5"
      by (auto simp: members.simps split: list.splits if_splits)
    from False s k r2 v r4 r5 obtain ps where "members ff n r5 = Scanned ps r"
      by (auto simp: members.simps split: if_splits scan.splits)
    from m [OF this] skip_ws_Cons [OF r5] l show ?thesis by simp
  qed
qed

lemma elements_length:
  assumes so: "\<And>s v r. scan_once ff n s = Scanned v r \<Longrightarrow> length r < length s"
    and e: "\<And>s vs r. elements ff n s = Scanned vs r \<Longrightarrow> length r < length s"
    and s: "elements ff (Suc n) s = Scanned vs r"
  shows "length r < length s"
proof -
  from s obtain v r0 where v: "scan_once ff n s = Scanned v r0"
    by (auto simp: elements.simps split: scan.splits)
  from s v obtain d r1 where r1: "skip_ws r0 = d # r1"
    by (auto simp: elements.simps split: list.splits)
  have l: "length r1 < length s"
    using so [OF v] skip_ws_Cons [OF r1] by simp
  show ?thesis
  proof (cases "d = 93")
    case True
    with s v r1 l show ?thesis by (simp add: elements.simps)
  next
    case False
    with s v r1 obtain ws where "elements ff n (skip_ws r1) = Scanned ws r"
      by (auto simp: elements.simps split: if_splits scan.splits)
    from e [OF this] skip_ws_le [of r1] l show ?thesis by simp
  qed
qed

lemma scan_length:
  "(\<forall>s v r. scan_once ff n s = Scanned v r \<longrightarrow> length r < length s) \<and>
   (\<forall>s p r. members ff n s = Scanned p r \<longrightarrow> length r < length s) \<and>
   (\<forall>s vs r. elements ff n s = Scanned vs r \<longrightarrow> length r < length s)"
proof (induction n)
  case 0
  then show ?case by (simp add: scan_once.simps members.simps elements.simps)
next
  case (Suc n)
  then show ?case
    using scan_once_length [of ff n] members_length [of ff n] elements_length [of ff n]
    by blast
qed



lemma scan_once_Exhausted:
  assumes "scan_once ff (Suc n) s = Exhausted"
  shows "(\<exists>t r. s = 123 # t \<and> skip_ws t = 34 # r \<and> members ff n r = Exhausted) \<or>
         (\<exists>t d r. s = 91 # t \<and> skip_ws t = d # r \<and> elements ff n (d # r) = Exhausted)"
proof (cases s)
  case Nil
  with assms show ?thesis by (simp add: scan_once.simps)
next
  case (Cons c t)
  consider "c = 34" | "c = 123" | "c = 91" | "c \<noteq> 34" "c \<noteq> 123" "c \<noteq> 91" by blast
  then show ?thesis
  proof cases
    case 1
    with assms Cons show ?thesis
      by (auto simp: scan_once.simps split: option.splits)
  next
    case 2
    with assms Cons show ?thesis
      by (auto simp: scan_once.simps split: list.splits if_splits scan.splits)
  next
    case 3
    with assms Cons show ?thesis
      by (auto simp: scan_once.simps split: list.splits if_splits scan.splits)
  next
    case 4
    with assms Cons show ?thesis
      by (auto simp: scan_once.simps split: if_splits option.splits)
  qed
qed

lemma members_Exhausted:
  assumes "members ff (Suc n) s = Exhausted"
  shows "\<exists>key r1 r2. scanstring s = Some (key, r1) \<and> skip_ws r1 = 58 # r2 \<and>
           (scan_once ff n (skip_ws r2) = Exhausted \<or>
            (\<exists>v r3 r4 r5. scan_once ff n (skip_ws r2) = Scanned v r3 \<and>
               skip_ws r3 = 44 # r4 \<and> skip_ws r4 = 34 # r5 \<and> members ff n r5 = Exhausted))"
  using assms
  by (auto simp: members.simps split: option.splits list.splits if_splits scan.splits)

lemma elements_Exhausted:
  assumes "elements ff (Suc n) s = Exhausted"
  shows "scan_once ff n s = Exhausted \<or>
         (\<exists>v r r1. scan_once ff n s = Scanned v r \<and> skip_ws r = 44 # r1 \<and>
            elements ff n (skip_ws r1) = Exhausted)"
  using assms
  by (auto simp: elements.simps split: list.splits if_splits scan.splits)

lemma scan_enough:
  "(\<forall>s. 2 * length s + 1 \<le> n \<longrightarrow> scan_once ff n s \<noteq> Exhausted) \<and>
   (\<forall>s. 2 * length s + 2 \<le> n \<longrightarrow> members ff n s \<noteq> Exhausted) \<and>
   (\<forall>s. 2 * length s + 2 \<le> n \<longrightarrow> elements ff n s \<noteq> Exhausted)"
proof (induction n)
  case 0
  then show ?case by simp
next
  case (Suc n)
  note so = Suc.IH [THEN conjunct1, rule_format]
  note me = Suc.IH [THEN conjunct2, THEN conjunct1, rule_format]
  note el = Suc.IH [THEN conjunct2, THEN conjunct2, rule_format]
  note len = scan_length [of ff n, THEN conjunct1, rule_format]
  have 1: "scan_once ff (Suc n) s \<noteq> Exhausted" if b: "2 * length s + 1 \<le> Suc n" for s
  proof
    assume "scan_once ff (Suc n) s = Exhausted"
    from scan_once_Exhausted [OF this] show False
    proof (elim disjE exE conjE)
      fix t r
      assume "s = 123 # t" "skip_ws t = 34 # r" "members ff n r = Exhausted"
      with me [of r] skip_ws_Cons [of t 34 r] b show False by simp
    next
      fix t d r
      assume "s = 91 # t" "skip_ws t = d # r" "elements ff n (d # r) = Exhausted"
      with el [of "d # r"] skip_ws_Cons [of t d r] b show False by simp
    qed
  qed
  have 2: "members ff (Suc n) s \<noteq> Exhausted" if b: "2 * length s + 2 \<le> Suc n" for s
  proof
    assume "members ff (Suc n) s = Exhausted"
    from members_Exhausted [OF this] obtain key r1 r2 where
      k: "scanstring s = Some (key, r1)" and r2: "skip_ws r1 = 58 # r2"
      and c: "scan_once ff n (skip_ws r2) = Exhausted \<or>
            (\<exists>v r3 r4 r5. scan_once ff n (skip_ws r2) = Scanned v r3 \<and>
               skip_ws r3 = 44 # r4 \<and> skip_ws r4 = 34 # r5 \<and> members ff n r5 = Exhausted)"
      by blast
    have l2: "length (skip_ws r2) + 2 \<le> length s"
      using scanstring_length [OF k] skip_ws_Cons [OF r2] skip_ws_le [of r2] by simp
    from c show False
    proof (elim disjE exE conjE)
      assume "scan_once ff n (skip_ws r2) = Exhausted"
      with so [of "skip_ws r2"] l2 b show False by simp
    next
      fix v r3 r4 r5
      assume v: "scan_once ff n (skip_ws r2) = Scanned v r3"
        and "skip_ws r3 = 44 # r4" "skip_ws r4 = 34 # r5" "members ff n r5 = Exhausted"
      with me [of r5] len [OF v] skip_ws_Cons [of r3 44 r4] skip_ws_Cons [of r4 34 r5] l2 b
      show False by simp
    qed
  qed
  have 3: "elements ff (Suc n) s \<noteq> Exhausted" if b: "2 * length s + 2 \<le> Suc n" for s
  proof
    assume "elements ff (Suc n) s = Exhausted"
    from elements_Exhausted [OF this] show False
    proof (elim disjE exE conjE)
      assume "scan_once ff n s = Exhausted"
      with so [of s] b show False by simp
    next
      fix v r r1
      assume v: "scan_once ff n s = Scanned v r"
        and "skip_ws r = 44 # r1" "elements ff n (skip_ws r1) = Exhausted"
      with el [of "skip_ws r1"] len [OF v] skip_ws_Cons [of r 44 r1] skip_ws_le [of r1] b
      show False by simp
    qed
  qed
  from 1 2 3 show ?case by blast
qed

lemma scan_once_not_Exhausted: "scan_once ff (2 * length s + 2) (skip_ws s) \<noteq> Exhausted"
  using scan_enough [of "2 * length s + 2" ff, THEN conjunct1, rule_format, of "skip_ws s"]
    skip_ws_le [of s]
  by simp

section \<open>What \<open>json.loads\<close> returns has distinct keys\<close>


lemma items_update:
  "items_keys_distinct al \<Longrightarrow> dict_keys_distinct v \<Longrightarrow>
   items_keys_distinct (AList.update k v al)"
  by (induction al) auto

lemma foldl_update_keys:
  "distinct (map fst acc) \<Longrightarrow> items_keys_distinct acc \<Longrightarrow> items_keys_distinct pairs \<Longrightarrow>
   distinct (map fst (foldl (\<lambda>d (k, v). AList.update k v d) acc pairs)) \<and>
   items_keys_distinct (foldl (\<lambda>d (k, v). AList.update k v d) acc pairs)"
proof (induction pairs arbitrary: acc)
  case Nil
  then show ?case by simp
next
  case (Cons kv pairs)
  obtain k v where kv: "kv = (k, v)" by (cases kv)
  from Cons.prems have a: "distinct (map fst (AList.update k v acc))"
    by (simp add: distinct_update)
  from Cons.prems have b: "items_keys_distinct (AList.update k v acc)"
    by (simp add: kv items_update)
  from Cons.prems have c: "items_keys_distinct pairs" by (simp add: kv)
  from Cons.IH [OF a b c] show ?case by (simp add: kv)
qed

lemma dict_of_keys:
  "items_keys_distinct pairs \<Longrightarrow> dict_keys_distinct (JDict (dict_of pairs))"
  using foldl_update_keys [of "[]" pairs] by (simp add: dict_of_def)

lemma empty_dict_keys: "dict_keys_distinct (JDict [])"
  by simp

lemma scan_once_keys:
  assumes m: "\<And>s p r. members ff n s = Scanned p r \<Longrightarrow> items_keys_distinct p"
    and e: "\<And>s vs r. elements ff n s = Scanned vs r \<Longrightarrow> list_keys_distinct vs"
    and s: "scan_once ff (Suc n) s = Scanned v r"
  shows "dict_keys_distinct v"
proof (cases s)
  case Nil
  with s show ?thesis by (simp add: scan_once.simps)
next
  case (Cons c t)
  consider "c = 34" | "c = 123" | "c = 91" | "c \<noteq> 34" "c \<noteq> 123" "c \<noteq> 91" by blast
  then show ?thesis
  proof cases
    case 1
    with s Cons show ?thesis
      by (auto simp: scan_once.simps split: option.splits)
  next
    case 2
    with s Cons show ?thesis
      by (auto simp: scan_once.simps empty_dict_keys simp del: dict_keys_distinct.simps(2)
          split: list.splits if_splits scan.splits dest!: m intro!: dict_of_keys)
  next
    case 3
    with s Cons show ?thesis
      by (auto simp: scan_once.simps split: list.splits if_splits scan.splits dest!: e)
  next
    case 4
    with s Cons show ?thesis
      by (auto simp: scan_once.simps split: if_splits option.splits)
  qed
qed

lemma members_keys:
  assumes so: "\<And>s v r. scan_once ff n s = Scanned v r \<Longrightarrow> dict_keys_distinct v"
    and m: "\<And>s p r. members ff n s = Scanned p r \<Longrightarrow> items_keys_distinct p"
    and s: "members ff (Suc n) s = Scanned p r"
  shows "items_keys_distinct p"
  using s
  by (auto simp: members.simps split: option.splits list.splits if_splits scan.splits
      dest!: so m)

lemma elements_keys:
  assumes so: "\<And>s v r. scan_once ff n s = Scanned v r \<Longrightarrow> dict_keys_distinct v"
    and e: "\<And>s vs r. elements ff n s = Scanned vs r \<Longrightarrow> list_keys_distinct vs"
    and s: "elements ff (Suc n) s = Scanned vs r"
  shows "list_keys_distinct vs"
  using s
  by (auto simp: elements.simps split: list.splits if_splits scan.splits dest!: so e)

lemma scan_keys:
  "(\<forall>s v r. scan_once ff n s = Scanned v r \<longrightarrow> dict_keys_distinct v) \<and>
   (\<forall>s p r. members ff n s = Scanned p r \<longrightarrow> items_keys_distinct p) \<and>
   (\<forall>s vs r. elements ff n s = Scanned vs r \<longrightarrow> list_keys_distinct vs)"
proof (induction n)
  case 0
  then show ?case by (simp add: scan_once.simps members.simps elements.simps)
next
  case (Suc n)
  then show ?case
    using scan_once_keys [of ff n] members_keys [of ff n] elements_keys [of ff n]
    by blast
qed

lemma json_loads_keys: "json_loads ff s = Some v \<Longrightarrow> dict_keys_distinct v"
  using scan_keys [of ff "2 * length s + 2", THEN conjunct1, rule_format]
  by (auto simp: json_loads_def split: if_splits scan.splits)

end
